theory Spec2Isabelle
  imports Complex_Main
begin

section \<open>JavaScript values\<close>

text \<open>
  Request bodies and the stored \<open>quiz_data\<close> column are JSON. A JSON text is represented
  by the value \<open>JSON.parse\<close> gives for it. \<open>JNum n\<close> is the number with the integer value
  \<open>n\<close>; JavaScript agrees with exact integer arithmetic on the safe integers
  (\<open>|n| \<le> 2^53\<close>), and fractions are not represented. \<open>JUndefined\<close> is what a read of
  a missing property or of an index past the end of an array gives. An object is the
  list of its own properties, looked up by key.
\<close>

datatype jsval =
    JUndefined
  | JNull
  | JBool bool
  | JNum int
  | JStr string
  | JArr "jsval list"
  | JObj "(string \<times> jsval) list"

datatype js_error = TypeError | SyntaxError | Error string | StorageError

text \<open>The conversion to a boolean that \<open>if (v)\<close>, \<open>!v\<close> and \<open>&&\<close> apply.\<close>

fun truthy :: "jsval \<Rightarrow> bool" where
  "truthy JUndefined = False"
| "truthy JNull = False"
| "truthy (JBool b) = b"
| "truthy (JNum n) = (n \<noteq> 0)"
| "truthy (JStr s) = (s \<noteq> [])"
| "truthy (JArr xs) = True"
| "truthy (JObj kvs) = True"

text \<open>
  The member access \<open>v.k\<close>, for the keys the server reads (\<open>question_text\<close>, \<open>options\<close>,
  \<open>correct_answer_index\<close>; none of them is a built-in property of strings, numbers or
  arrays). On \<open>null\<close> and \<open>undefined\<close> it throws a TypeError.
\<close>

fun get_prop :: "jsval \<Rightarrow> string \<Rightarrow> js_error + jsval" where
  "get_prop JUndefined k = Inl TypeError"
| "get_prop JNull k = Inl TypeError"
| "get_prop (JObj kvs) k = Inr (case map_of kvs k of None \<Rightarrow> JUndefined | Some v \<Rightarrow> v)"
| "get_prop (JBool b) k = Inr JUndefined"
| "get_prop (JNum n) k = Inr JUndefined"
| "get_prop (JStr s) k = Inr JUndefined"
| "get_prop (JArr xs) k = Inr JUndefined"

text \<open>The indexed read \<open>xs[i]\<close> of an array: \<open>undefined\<close> past the end.\<close>

definition js_index :: "jsval list \<Rightarrow> nat \<Rightarrow> jsval" where
  "js_index xs i = (if i < length xs then xs ! i else JUndefined)"


subsection \<open>parseInt\<close>

text \<open>
  \<open>parseInt(v)\<close> converts \<open>v\<close> to a string, skips leading white space, reads an optional
  sign and an optional \<open>0x\<close> prefix, and then the longest run of digits of the radix;
  with no digit the result is \<open>NaN\<close>, here \<open>None\<close>. White space is the ASCII part of the
  language's white space characters.
\<close>

definition digit_char :: "nat \<Rightarrow> char" where
  "digit_char d = char_of (48 + d)"

fun digits10 :: "nat \<Rightarrow> string" where
  "digits10 n = (if n < 10 then [digit_char n] else digits10 (n div 10) @ [digit_char (n mod 10)])"

declare digits10.simps [simp del]

definition js_join :: "string \<Rightarrow> string list \<Rightarrow> string" where
  "js_join sep ss = (case ss of [] \<Rightarrow> [] | s # rest \<Rightarrow> foldl (\<lambda>acc t. acc @ sep @ t) s rest)"

fun js_to_string :: "jsval \<Rightarrow> string" where
  "js_to_string JUndefined = ''undefined''"
| "js_to_string JNull = ''null''"
| "js_to_string (JBool b) = (if b then ''true'' else ''false'')"
| "js_to_string (JNum n) = (if n < 0 then CHR ''-'' # digits10 (nat (- n)) else digits10 (nat n))"
| "js_to_string (JStr s) = s"
| "js_to_string (JArr xs) =
     js_join '','' (map (\<lambda>x. if x = JNull \<or> x = JUndefined then [] else js_to_string x) xs)"
| "js_to_string (JObj kvs) = ''[object Object]''"

definition is_js_space :: "char \<Rightarrow> bool" where
  "is_js_space c \<longleftrightarrow> of_char c \<in> {9, 10, 11, 12, 13, 32 :: nat}"

definition digit_val :: "nat \<Rightarrow> char \<Rightarrow> nat option" where
  "digit_val radix c =
     (let k = (of_char c :: nat);
          v = (if 48 \<le> k \<and> k \<le> 57 then Some (k - 48)
               else if 97 \<le> k \<and> k \<le> 122 then Some (k - 87)
               else if 65 \<le> k \<and> k \<le> 90 then Some (k - 55)
               else None)
      in case v of None \<Rightarrow> None | Some d \<Rightarrow> if d < radix then Some d else None)"

definition digits_value :: "nat \<Rightarrow> string \<Rightarrow> nat" where
  "digits_value radix z =
     foldl (\<lambda>acc c. acc * radix + (case digit_val radix c of None \<Rightarrow> 0 | Some d \<Rightarrow> d)) 0 z"

definition parse_digits :: "nat \<Rightarrow> string \<Rightarrow> nat option" where
  "parse_digits radix s =
     (let z = takeWhile (\<lambda>c. digit_val radix c \<noteq> None) s
      in if z = [] then None else Some (digits_value radix z))"

definition parseInt_string :: "string \<Rightarrow> int option" where
  "parseInt_string input =
     (let s = dropWhile is_js_space input;
          neg = (s \<noteq> [] \<and> hd s = CHR ''-'');
          s1 = (if s \<noteq> [] \<and> (hd s = CHR ''-'' \<or> hd s = CHR ''+'') then tl s else s);
          hex = (take 2 s1 = ''0x'' \<or> take 2 s1 = ''0X'');
          r = (if hex then parse_digits 16 (drop 2 s1) else parse_digits 10 s1)
      in case r of None \<Rightarrow> None
         | Some m \<Rightarrow> Some (if neg then - int m else int m))"

definition parseInt :: "jsval \<Rightarrow> int option" where
  "parseInt v = parseInt_string (js_to_string v)"

text \<open>\<open>x === v\<close> for \<open>x\<close> a number or \<open>NaN\<close>: true only for the same number.\<close>

fun strict_eq_number :: "int option \<Rightarrow> jsval \<Rightarrow> bool" where
  "strict_eq_number (Some n) (JNum k) = (n = k)"
| "strict_eq_number x v = False"

subsection \<open>Numbers that may be NaN\<close>

text \<open>
  The score is a quotient. Quotients are taken exactly, as rationals (the rounding of
  IEEE doubles is not represented); division by zero gives \<open>NaN\<close> or \<open>Infinity\<close> as in
  JavaScript.
\<close>

datatype jsnum = NaN | Infinity | Fin rat

definition js_div :: "nat \<Rightarrow> nat \<Rightarrow> jsnum" where
  "js_div a b = (if b = 0 then (if a = 0 then NaN else Infinity) else Fin (of_nat a / of_nat b))"

fun js_times :: "jsnum \<Rightarrow> nat \<Rightarrow> jsnum" where
  "js_times NaN k = NaN"
| "js_times Infinity k = (if k = 0 then NaN else Infinity)"
| "js_times (Fin q) k = Fin (q * of_nat k)"

text \<open>
  \<open>x.toFixed(2)\<close> is the text \<open>NaN\<close> or \<open>Infinity\<close>, or the decimal text with two
  fraction digits nearest to \<open>x\<close>, the larger one on a tie. \<open>Fixed n\<close> stands for the
  decimal text of value \<open>n / 100\<close>.
\<close>

datatype fixed2 = FixedNaN | FixedInfinity | Fixed int

fun toFixed2 :: "jsnum \<Rightarrow> fixed2" where
  "toFixed2 NaN = FixedNaN"
| "toFixed2 Infinity = FixedInfinity"
| "toFixed2 (Fin q) =
     (if q < 0 then Fixed (- \<lfloor>(- q) * 100 + 1 / 2\<rfloor>) else Fixed \<lfloor>q * 100 + 1 / 2\<rfloor>)"

section \<open>Grading\<close>

text \<open>
  The body of the grading loop of \<open>POST /api/quizzes/:contentId/submit\<close> for one question
  \<open>q = quiz_data[i]\<close> and one answer \<open>a = answers[i]\<close>: whether \<open>correctAnswers\<close> is
  incremented.
\<close>

definition grade_question :: "jsval \<Rightarrow> jsval \<Rightarrow> bool" where
  "grade_question q a =
     (truthy q \<and>
      (case get_prop q ''correct_answer_index'' of
         Inl e \<Rightarrow> False
       | Inr idx \<Rightarrow> idx \<noteq> JUndefined \<and> a \<noteq> JUndefined \<and> strict_eq_number (parseInt a) idx))"

text \<open>The loop \<open>for (let i = 0; i < totalQuestions; i++)\<close>, from index \<open>i\<close> on.\<close>

function grade_from :: "jsval list \<Rightarrow> jsval list \<Rightarrow> nat \<Rightarrow> nat \<Rightarrow> nat" where
  "grade_from quiz_data answers i correctAnswers =
     (if i < length quiz_data
      then grade_from quiz_data answers (Suc i)
             (if grade_question (quiz_data ! i) (js_index answers i)
              then Suc correctAnswers else correctAnswers)
      else correctAnswers)"
  by pat_completeness auto
termination
  by (relation "measure (\<lambda>(quiz_data, answers, i, c). length quiz_data - i)") auto

declare grade_from.simps [simp del]

record grading =
  g_score :: jsnum
  g_correctAnswers :: nat
  g_totalQuestions :: nat

definition grade :: "jsval list \<Rightarrow> jsval list \<Rightarrow> grading" where
  "grade quiz_data answers =
     (let totalQuestions = length quiz_data;
          correctAnswers = grade_from quiz_data answers 0 0;
          score = js_times (js_div correctAnswers totalQuestions) 100
      in \<lparr>g_score = score, g_correctAnswers = correctAnswers, g_totalQuestions = totalQuestions\<rparr>)"

section \<open>The record store\<close>

text \<open>
  The tables of the schema, with the columns the handlers below read or write. A row is
  a record, a table is the list of its rows in insertion order. Prices and scores are
  decimals with two fraction digits, kept as the integer number of hundredths. Time stamps
  are numbers; each request carries the value \<open>CURRENT_TIMESTAMP\<close> has while it runs.
  Row ids of \<open>enrollments\<close>, \<open>user_content_progress\<close> and \<open>user_quiz_attempts\<close> are
  not kept: these handlers only test whether a row exists. \<open>quiz_data\<close> is \<open>NULL\<close> or
  the JSON text of an array, which is all the only writer of the column stores.
  \<open>strict_mode\<close> is the server's SQL mode: whether a value that does not fit its column
  makes the statement fail or is coerced.
\<close>

record module_row =
  m_id :: nat
  m_instructor_id :: nat
  m_is_published :: bool
  m_price :: int

record content_row =
  c_id :: nat
  c_module_id :: nat
  c_title :: string
  c_content_type :: string
  c_content_text :: "string option"
  c_file_path :: "string option"
  c_quiz_data :: "jsval list option"
  c_created_at :: nat

record enrollment_row =
  e_user_id :: nat
  e_module_id :: nat
  e_enrollment_date :: nat
  e_is_completed :: bool

record progress_row =
  p_user_id :: nat
  p_content_id :: nat
  p_is_completed :: bool
  p_completed_at :: nat

record attempt_row =
  a_user_id :: nat
  a_quiz_content_id :: nat
  a_score :: int
  a_submitted_answers :: "jsval list"
  a_attempt_date :: nat

record db =
  modules :: "module_row list"
  content :: "content_row list"
  content_auto_increment :: nat
  enrollments :: "enrollment_row list"
  user_content_progress :: "progress_row list"
  user_quiz_attempts :: "attempt_row list"
  strict_mode :: bool

text \<open>The queries of the handlers.\<close>

definition select_module :: "db \<Rightarrow> nat \<Rightarrow> module_row list" where
  "select_module d moduleId = filter (\<lambda>m. m_id m = moduleId) (modules d)"

definition select_content :: "db \<Rightarrow> nat \<Rightarrow> content_row list" where
  "select_content d contentId = filter (\<lambda>c. c_id c = contentId) (content d)"

definition select_quiz :: "db \<Rightarrow> nat \<Rightarrow> content_row list" where
  "select_quiz d contentId =
     filter (\<lambda>c. c_id c = contentId \<and> c_content_type c = ''Quizzes'') (content d)"

definition select_enrollment :: "db \<Rightarrow> nat \<Rightarrow> nat \<Rightarrow> enrollment_row list" where
  "select_enrollment d user_id module_id =
     filter (\<lambda>e. e_user_id e = user_id \<and> e_module_id e = module_id) (enrollments d)"

definition select_progress :: "db \<Rightarrow> nat \<Rightarrow> nat \<Rightarrow> progress_row list" where
  "select_progress d user_id contentId =
     filter (\<lambda>p. p_user_id p = user_id \<and> p_content_id p = contentId) (user_content_progress d)"

text \<open>
  The statements that write. An \<open>INSERT\<close> fails (\<open>StorageError\<close>) on a duplicate of a
  unique key (\<open>unique_enrollment\<close>, \<open>unique_content_progress\<close>) and on a foreign key
  without its parent row (\<open>fk_enrollment_module\<close>, \<open>fk_progress_content\<close>,
  \<open>fk_attempt_quiz_content\<close>); the user of a verified token is taken to exist.
\<close>

definition insert_enrollment :: "db \<Rightarrow> nat \<Rightarrow> nat \<Rightarrow> nat \<Rightarrow> js_error + db" where
  "insert_enrollment d user_id module_id now =
     (if select_enrollment d user_id module_id \<noteq> [] then Inl StorageError
      else if select_module d module_id = [] then Inl StorageError
      else Inr (d\<lparr>enrollments := enrollments d @
             [\<lparr>e_user_id = user_id, e_module_id = module_id,
               e_enrollment_date = now, e_is_completed = False\<rparr>]\<rparr>))"

definition insert_progress :: "db \<Rightarrow> nat \<Rightarrow> nat \<Rightarrow> nat \<Rightarrow> js_error + db" where
  "insert_progress d user_id contentId now =
     (if select_progress d user_id contentId \<noteq> [] then Inl StorageError
      else if select_content d contentId = [] then Inl StorageError
      else Inr (d\<lparr>user_content_progress := user_content_progress d @
             [\<lparr>p_user_id = user_id, p_content_id = contentId,
               p_is_completed = True, p_completed_at = now\<rparr>]\<rparr>))"

definition update_progress :: "db \<Rightarrow> nat \<Rightarrow> nat \<Rightarrow> nat \<Rightarrow> db" where
  "update_progress d user_id contentId now =
     d\<lparr>user_content_progress :=
         map (\<lambda>p. if p_user_id p = user_id \<and> p_content_id p = contentId
                  then p\<lparr>p_completed_at := now\<rparr> else p)
             (user_content_progress d)\<rparr>"

text \<open>
  The text of a score going into the \<open>decimal(5,2)\<close> column: a text that is no number
  (\<open>NaN\<close>, \<open>Infinity\<close>) or lies outside the column's range fails in strict mode and is
  coerced otherwise (to zero, to the nearest bound).
\<close>

definition to_decimal_5_2 :: "bool \<Rightarrow> fixed2 \<Rightarrow> js_error + int" where
  "to_decimal_5_2 strict t =
     (case t of
        Fixed n \<Rightarrow>
          if - 99999 \<le> n \<and> n \<le> 99999 then Inr n
          else if strict then Inl StorageError
          else Inr (if n < 0 then - 99999 else 99999)
      | FixedNaN \<Rightarrow> if strict then Inl StorageError else Inr 0
      | FixedInfinity \<Rightarrow> if strict then Inl StorageError else Inr 0)"

definition insert_attempt ::
  "db \<Rightarrow> nat \<Rightarrow> nat \<Rightarrow> fixed2 \<Rightarrow> jsval list \<Rightarrow> nat \<Rightarrow> js_error + db" where
  "insert_attempt d user_id quizContentId score answers now =
     (if select_content d quizContentId = [] then Inl StorageError
      else case to_decimal_5_2 (strict_mode d) score of
             Inl e \<Rightarrow> Inl e
           | Inr s \<Rightarrow>
               Inr (d\<lparr>user_quiz_attempts := user_quiz_attempts d @
                    [\<lparr>a_user_id = user_id, a_quiz_content_id = quizContentId, a_score = s,
                      a_submitted_answers = answers, a_attempt_date = now\<rparr>]\<rparr>))"

text \<open>
  The \<open>content_type\<close> column is an enumeration: another text fails in strict mode and is
  stored as the empty text otherwise. The text is taken to be spelled as declared.
\<close>

definition to_content_type_enum :: "bool \<Rightarrow> string \<Rightarrow> js_error + string" where
  "to_content_type_enum strict t =
     (if t \<in> set [''Notes'', ''Videos'', ''Quizzes'', ''Assignments''] then Inr t
      else if strict then Inl StorageError
      else Inr [])"

definition insert_content ::
  "db \<Rightarrow> nat \<Rightarrow> string \<Rightarrow> string \<Rightarrow> string option \<Rightarrow> string option \<Rightarrow> jsval list option \<Rightarrow> nat
     \<Rightarrow> js_error + db" where
  "insert_content d moduleId title content_type content_text file_path quiz_data now =
     (if select_module d moduleId = [] then Inl StorageError
      else case to_content_type_enum (strict_mode d) content_type of
             Inl e \<Rightarrow> Inl e
           | Inr ct \<Rightarrow>
               Inr (d\<lparr>content := content d @
                      [\<lparr>c_id = content_auto_increment d, c_module_id = moduleId,
                        c_title = title, c_content_type = ct, c_content_text = content_text,
                        c_file_path = file_path, c_quiz_data = quiz_data, c_created_at = now\<rparr>],
                    content_auto_increment := Suc (content_auto_increment d)\<rparr>))"

section \<open>Requests, responses and the middleware\<close>

datatype role = Learner | Lecturer | Admin

record user =
  u_id :: nat
  u_role :: role

text \<open>The cookie of a request: no token, a token that does not verify, or the user it names.\<close>

datatype credential = NoToken | InvalidToken | Token user

record module_progress =
  total_content_items :: nat
  completed_content_items :: nat
  progressPercentage :: jsnum

record content_view =
  cv_row :: content_row
  user_completed_content :: bool

datatype body =
    Message string
  | QuizSubmitted grading
  | ContentList "content_view list"

record response =
  status :: nat
  body :: body

definition reply :: "nat \<Rightarrow> string \<Rightarrow> response" where
  "reply code message = \<lparr>status = code, body = Message message\<rparr>"

definition authenticateToken :: "credential \<Rightarrow> response + user" where
  "authenticateToken cred =
     (case cred of
        NoToken \<Rightarrow> Inl (reply 401 ''Authentication failed: No token provided'')
      | InvalidToken \<Rightarrow> Inl (reply 403 ''Authentication failed: Invalid token'')
      | Token u \<Rightarrow> Inr u)"

fun role_name :: "role \<Rightarrow> string" where
  "role_name Learner = ''learner''"
| "role_name Lecturer = ''lecturer''"
| "role_name Admin = ''admin''"

definition authorizeRole :: "role list \<Rightarrow> user \<Rightarrow> response option" where
  "authorizeRole allowedRoles u =
     (if u_role u \<in> set allowedRoles then None
      else Some (reply 403 (''Access denied: You do not have the required role ('' @
                   js_join '', '' (map role_name allowedRoles) @ '')'')))"

section \<open>Quiz submission: \<open>POST /api/quizzes/:contentId/submit\<close>\<close>

text \<open>
  The body of the \<open>try\<close> block, run in one transaction on the state \<open>d\<close>. \<open>Inl\<close> is an
  exception, which the \<open>catch\<close> block answers by a rollback; \<open>Inr\<close> carries the state
  the handler leaves and its response. The statements are numbered: 0 opens the
  transaction, 1 selects the quiz, 2 inserts the attempt, 3 selects the progress row,
  4 inserts or updates it, 5 commits. \<open>fault = Some k\<close> is a run in which the driver
  rejects statement \<open>k\<close> (a lost connection, say); \<open>None\<close> is a run without such a failure.
  \<open>JSON.parse\<close> of a \<open>NULL\<close> column is \<open>null\<close>, and reading its \<open>length\<close> throws.
\<close>

definition submit_transaction ::
  "db \<Rightarrow> nat \<Rightarrow> nat \<Rightarrow> jsval list \<Rightarrow> nat \<Rightarrow> nat option \<Rightarrow> js_error + (db \<times> response)" where
  "submit_transaction d user_id quizContentId answers now fault =
     (if fault = Some 0 \<or> fault = Some 1 then Inl StorageError
      else case select_quiz d quizContentId of
        [] \<Rightarrow> Inr (d, reply 404 ''Quiz content not found or is not a quiz.'')
      | quizContent # rest \<Rightarrow>
         (case c_quiz_data quizContent of
            None \<Rightarrow> Inl TypeError
          | Some quiz_data \<Rightarrow>
             (let g = grade quiz_data answers in
              if fault = Some 2 then Inl StorageError
              else case insert_attempt d user_id quizContentId (toFixed2 (g_score g)) answers now of
                Inl e \<Rightarrow> Inl e
              | Inr d1 \<Rightarrow>
                 if fault = Some 3 then Inl StorageError
                 else let existingProgress = select_progress d1 user_id quizContentId in
                 if fault = Some 4 then Inl StorageError
                 else case (if length existingProgress = 0
                            then insert_progress d1 user_id quizContentId now
                            else Inr (update_progress d1 user_id quizContentId now)) of
                   Inl e \<Rightarrow> Inl e
                 | Inr d2 \<Rightarrow>
                    if fault = Some 5 then Inl StorageError
                    else Inr (d2, \<lparr>status = 200, body = QuizSubmitted g\<rparr>))))"

definition submit_quiz ::
  "db \<Rightarrow> credential \<Rightarrow> nat \<Rightarrow> jsval \<Rightarrow> nat \<Rightarrow> nat option \<Rightarrow> db \<times> response" where
  "submit_quiz d cred quizContentId answers now fault =
     (case authenticateToken cred of
        Inl r \<Rightarrow> (d, r)
      | Inr u \<Rightarrow>
         (case authorizeRole [Learner] u of
            Some r \<Rightarrow> (d, r)
          | None \<Rightarrow>
             (case answers of
                JArr ans \<Rightarrow>
                  (case submit_transaction d (u_id u) quizContentId ans now fault of
                     Inl e \<Rightarrow> (d, reply 500 ''Server error submitting quiz.'')
                   | Inr (d', r) \<Rightarrow> (d', r))
              | _ \<Rightarrow> (d, reply 400 ''Answers must be an array.''))))"

section \<open>Content completion: \<open>POST /api/content/:contentId/complete\<close>\<close>

definition complete_content :: "db \<Rightarrow> credential \<Rightarrow> nat \<Rightarrow> nat \<Rightarrow> db \<times> response" where
  "complete_content d cred contentId now =
     (case authenticateToken cred of
        Inl r \<Rightarrow> (d, r)
      | Inr u \<Rightarrow>
         (case authorizeRole [Learner] u of
            Some r \<Rightarrow> (d, r)
          | None \<Rightarrow>
             (case select_content d contentId of
                [] \<Rightarrow> (d, reply 404 ''Content item not found.'')
              | c # rest \<Rightarrow>
                 (let module_id = c_module_id c;
                      enrollment = select_enrollment d (u_id u) module_id
                  in if length enrollment = 0
                     then (d, reply 403 ''You are not enrolled in the module this content belongs to.'')
                     else let existingProgress = select_progress d (u_id u) contentId
                          in case (if length existingProgress = 0
                                   then insert_progress d (u_id u) contentId now
                                   else Inr (update_progress d (u_id u) contentId now)) of
                               Inl e \<Rightarrow> (d, reply 500 ''Server error marking content complete.'')
                             | Inr d' \<Rightarrow> (d', reply 200 ''Content marked as complete successfully.'')))))"

section \<open>Enrollment: \<open>POST /api/enroll\<close>\<close>

text \<open>
  \<open>module_id\<close> of the request body: \<open>None\<close> when it is missing, \<open>Some n\<close> for the number
  \<open>n\<close>; zero is falsy. The column \<open>price\<close> reaches the handler as its decimal text, and
  \<open>price > 0\<close> compares its numeric value.
\<close>

definition enroll_checks :: "db \<Rightarrow> nat \<Rightarrow> nat \<Rightarrow> response option" where
  "enroll_checks d user_id module_id =
     (case select_module d module_id of
        [] \<Rightarrow> Some (reply 404 ''Module not found'')
      | m # rest \<Rightarrow>
         if \<not> m_is_published m then Some (reply 400 ''Cannot enroll in an unpublished module.'')
         else if m_price m > 0
         then Some (reply 400 ''This is a paid module. Payment integration is not yet implemented.'')
         else if length (select_enrollment d user_id module_id) > 0
         then Some (reply 400 ''Already enrolled in this module'')
         else None)"

text \<open>
  The handler awaits each query, and other requests run in between. \<open>d_read\<close> is the
  state its reads see, \<open>d_write\<close> the state its \<open>INSERT\<close> meets; the result is the state
  after the \<open>INSERT\<close>. Run alone, the two are the same state.
\<close>

definition enroll_interleaved ::
  "db \<Rightarrow> db \<Rightarrow> credential \<Rightarrow> nat option \<Rightarrow> nat \<Rightarrow> db \<times> response" where
  "enroll_interleaved d_read d_write cred module_id now =
     (case authenticateToken cred of
        Inl r \<Rightarrow> (d_write, r)
      | Inr u \<Rightarrow>
         (case authorizeRole [Learner] u of
            Some r \<Rightarrow> (d_write, r)
          | None \<Rightarrow>
             (case module_id of
                None \<Rightarrow> (d_write, reply 400 ''Module ID is required'')
              | Some mid \<Rightarrow>
                 if mid = 0 then (d_write, reply 400 ''Module ID is required'')
                 else case enroll_checks d_read (u_id u) mid of
                        Some r \<Rightarrow> (d_write, r)
                      | None \<Rightarrow>
                         (case insert_enrollment d_write (u_id u) mid now of
                            Inl e \<Rightarrow> (d_write, reply 500 ''Server error during enrollment'')
                          | Inr d' \<Rightarrow> (d', reply 201 ''Enrollment successful'')))))"

definition enroll :: "db \<Rightarrow> credential \<Rightarrow> nat option \<Rightarrow> nat \<Rightarrow> db \<times> response" where
  "enroll d cred module_id now = enroll_interleaved d d cred module_id now"

section \<open>Content creation: \<open>POST /api/modules/:moduleId/content\<close>\<close>

text \<open>
  The form field \<open>quiz_data\<close>: missing or the empty text (both falsy), a text that
  \<open>JSON.parse\<close> rejects, or a text that parses to a value. The other fields are texts,
  empty when missing; \<open>file\<close> is the name of the uploaded file, if any. The file system
  is not represented.
\<close>

datatype quiz_field = NoQuizData | BadJson | Json jsval

record content_form =
  f_title :: string
  f_content_type :: string
  f_content_text :: string
  f_file :: "string option"
  f_quiz_data :: quiz_field

text \<open>
  The predicate given to \<open>some\<close>: \<open>!q.question_text || !Array.isArray(q.options) ||
  q.options.length === 0\<close>; on a \<open>null\<close> question the member access throws.
\<close>

definition question_invalid :: "jsval \<Rightarrow> js_error + bool" where
  "question_invalid q =
     (case get_prop q ''question_text'' of
        Inl e \<Rightarrow> Inl e
      | Inr t \<Rightarrow>
         if \<not> truthy t then Inr True
         else (case get_prop q ''options'' of
                 Inl e \<Rightarrow> Inl e
               | Inr opts \<Rightarrow>
                  (case opts of
                     JArr xs \<Rightarrow> Inr (length xs = 0)
                   | _ \<Rightarrow> Inr True)))"

fun some_invalid :: "jsval list \<Rightarrow> js_error + bool" where
  "some_invalid [] = Inr False"
| "some_invalid (q # qs) =
     (case question_invalid q of
        Inl e \<Rightarrow> Inl e
      | Inr b \<Rightarrow> if b then Inr True else some_invalid qs)"

text \<open>The inner \<open>try\<close> block: \<open>JSON.parse\<close> and the check of the structure.\<close>

definition parse_quiz_data :: "quiz_field \<Rightarrow> js_error + jsval list" where
  "parse_quiz_data qd =
     (case qd of
        NoQuizData \<Rightarrow> Inl SyntaxError
      | BadJson \<Rightarrow> Inl SyntaxError
      | Json v \<Rightarrow>
         (case v of
            JArr qs \<Rightarrow>
              (case some_invalid qs of
                 Inl e \<Rightarrow> Inl e
               | Inr b \<Rightarrow> if b then Inl (Error ''Invalid quiz data format.'') else Inr qs)
          | _ \<Rightarrow> Inl (Error ''Invalid quiz data format.'')))"

definition create_content ::
  "db \<Rightarrow> credential \<Rightarrow> nat \<Rightarrow> content_form \<Rightarrow> nat \<Rightarrow> db \<times> response" where
  "create_content d cred moduleId form now =
     (case authenticateToken cred of
        Inl r \<Rightarrow> (d, r)
      | Inr u \<Rightarrow>
         (case authorizeRole [Lecturer, Admin] u of
            Some r \<Rightarrow> (d, r)
          | None \<Rightarrow>
             (let title = f_title form;
                  content_type = f_content_type form;
                  quiz_data = f_quiz_data form;
                  content_text = (if f_content_text form = [] then None else Some (f_content_text form));
                  file_path = (case f_file form of None \<Rightarrow> None | Some fname \<Rightarrow> Some (''/uploads/'' @ fname))
              in if title = [] \<or> content_type = []
                 then (if content_type = ''Quizzes'' \<and> quiz_data = NoQuizData
                       then (d, reply 400 ''Quiz title and quiz data are required.'')
                       else if content_type \<noteq> ''Quizzes'' \<and> content_text = None \<and> file_path = None
                       then (d, reply 400 ''Content title and either text or a file are required.'')
                       else (d, reply 400 ''Title and content type are required.''))
                 else case select_module d moduleId of
                   [] \<Rightarrow> (d, reply 404 ''Module not found'')
                 | m # rest \<Rightarrow>
                    if u_role u = Lecturer \<and> m_instructor_id m \<noteq> u_id u
                    then (d, reply 403 ''Access denied: Not authorized to add content to this module.'')
                    else case (if content_type = ''Quizzes'' \<and> quiz_data \<noteq> NoQuizData
                               then (case parse_quiz_data quiz_data of
                                       Inl e \<Rightarrow> Inl e
                                     | Inr qs \<Rightarrow> Inr (Some qs))
                               else Inr None) of
                      Inl e \<Rightarrow>
                        (d, reply 400 ''Invalid quiz data format. Must be a valid JSON array of questions.'')
                    | Inr parsedQuizData \<Rightarrow>
                       (case insert_content d moduleId title content_type content_text file_path
                               parsedQuizData now of
                          Inl e \<Rightarrow> (d, reply 500 ''Server error adding content'')
                        | Inr d' \<Rightarrow> (d', reply 201 ''Content added successfully'')))))"

section \<open>Module content and progress\<close>

text \<open>
  \<open>GET /api/modules/:moduleId/content\<close>: the content rows of the module, left-joined
  with the progress rows of the user, oldest first.
\<close>

definition content_join :: "db \<Rightarrow> nat \<Rightarrow> nat \<Rightarrow> content_view list" where
  "content_join d user_id moduleId =
     concat (map (\<lambda>c.
        (case filter (\<lambda>ucp. c_id c = p_content_id ucp \<and> p_user_id ucp = user_id)
                (user_content_progress d) of
           [] \<Rightarrow> [\<lparr>cv_row = c, user_completed_content = False\<rparr>]
         | ucps \<Rightarrow> map (\<lambda>ucp. \<lparr>cv_row = c, user_completed_content = p_is_completed ucp\<rparr>) ucps))
       (sort_key c_created_at (filter (\<lambda>c. c_module_id c = moduleId) (content d))))"

definition get_module_content :: "db \<Rightarrow> credential \<Rightarrow> nat \<Rightarrow> response" where
  "get_module_content d cred moduleId =
     (case authenticateToken cred of
        Inl r \<Rightarrow> r
      | Inr u \<Rightarrow>
         (case select_module d moduleId of
            [] \<Rightarrow> reply 404 ''Module not found''
          | m # rest \<Rightarrow>
             if u_role u = Lecturer \<and> m_instructor_id m \<noteq> u_id u
             then reply 403 ''Access denied: Not your module.''
             else if u_role u = Learner \<and> \<not> m_is_published m
                     \<and> length (select_enrollment d (u_id u) moduleId) = 0
             then reply 403 ''Access denied: Module not published and you are not enrolled.''
             else \<lparr>status = 200, body = ContentList (content_join d (u_id u) moduleId)\<rparr>))"

text \<open>
  The client's \<open>fetchEnrolledModules\<close> computes the progress of a module from that
  response. (It then shows the percentage rounded to an integer.)
\<close>

definition module_progress_of :: "content_view list \<Rightarrow> module_progress" where
  "module_progress_of content_items =
     (let totalContentItems = length content_items;
          completedContentItems = length (filter user_completed_content content_items);
          pct = (if totalContentItems > 0
                 then js_times (js_div completedContentItems totalContentItems) 100
                 else Fin 0)
      in \<lparr>total_content_items = totalContentItems,
          completed_content_items = completedContentItems,
          progressPercentage = pct\<rparr>)"

definition learner_module_progress :: "db \<Rightarrow> credential \<Rightarrow> nat \<Rightarrow> module_progress option" where
  "learner_module_progress d cred moduleId =
     (case body (get_module_content d cred moduleId) of
        ContentList items \<Rightarrow> Some (module_progress_of items)
      | _ \<Rightarrow> None)"

section \<open>Requests in sequence\<close>

datatype request =
    SubmitQuiz credential nat jsval nat "nat option"
  | CompleteContent credential nat nat
  | Enroll credential "nat option" nat
  | CreateContent credential nat content_form nat

fun handle :: "db \<Rightarrow> request \<Rightarrow> db" where
  "handle d (SubmitQuiz cred contentId answers now fault) =
     fst (submit_quiz d cred contentId answers now fault)"
| "handle d (CompleteContent cred contentId now) = fst (complete_content d cred contentId now)"
| "handle d (Enroll cred module_id now) = fst (enroll d cred module_id now)"
| "handle d (CreateContent cred moduleId form now) = fst (create_content d cred moduleId form now)"

definition run :: "db \<Rightarrow> request list \<Rightarrow> db" where
  "run d reqs = foldl handle d reqs"

section \<open>Properties of states and of quiz definitions\<close>

text \<open>The unique keys of the schema, as properties of a state.\<close>

definition unique_content_progress :: "db \<Rightarrow> bool" where
  "unique_content_progress d \<longleftrightarrow>
     distinct (map (\<lambda>p. (p_user_id p, p_content_id p)) (user_content_progress d))"

definition unique_enrollment :: "db \<Rightarrow> bool" where
  "unique_enrollment d \<longleftrightarrow>
     distinct (map (\<lambda>e. (e_user_id e, e_module_id e)) (enrollments d))"

definition all_completed :: "db \<Rightarrow> bool" where
  "all_completed d \<longleftrightarrow> list_all p_is_completed (user_content_progress d)"

text \<open>The rows of the progress table other than those of one learner and content item.\<close>

definition other_progress :: "db \<Rightarrow> nat \<Rightarrow> nat \<Rightarrow> progress_row list" where
  "other_progress d user_id contentId =
     filter (\<lambda>p. \<not> (p_user_id p = user_id \<and> p_content_id p = contentId)) (user_content_progress d)"






text \<open>The progress table after the upsert of one learner and content item.\<close>

definition upserted :: "progress_row list \<Rightarrow> nat \<Rightarrow> nat \<Rightarrow> nat \<Rightarrow> progress_row list" where
  "upserted ps uid cid now =
     (if filter (\<lambda>p. p_user_id p = uid \<and> p_content_id p = cid) ps = []
      then ps @ [\<lparr>p_user_id = uid, p_content_id = cid, p_is_completed = True, p_completed_at = now\<rparr>]
      else map (\<lambda>p. if p_user_id p = uid \<and> p_content_id p = cid
                     then p\<lparr>p_completed_at := now\<rparr> else p) ps)"

text \<open>Whether the progress table holds a completed row of a learner for a content item.\<close>

definition completed_by :: "db \<Rightarrow> nat \<Rightarrow> nat \<Rightarrow> bool" where
  "completed_by d user_id contentId \<longleftrightarrow>
     list_ex (\<lambda>p. p_user_id p = user_id \<and> p_content_id p = contentId \<and> p_is_completed p)
       (user_content_progress d)"

text \<open>The content items of a module.\<close>

definition module_content :: "db \<Rightarrow> nat \<Rightarrow> content_row list" where
  "module_content d moduleId = filter (\<lambda>c. c_module_id c = moduleId) (content d)"


text \<open>The state after an enrollment row is appended, as \<open>INSERT INTO enrollments\<close> leaves it.\<close>

definition with_enrollment :: "db \<Rightarrow> nat \<Rightarrow> nat \<Rightarrow> nat \<Rightarrow> db" where
  "with_enrollment d user_id module_id now =
     d\<lparr>enrollments := enrollments d @
          [\<lparr>e_user_id = user_id, e_module_id = module_id,
            e_enrollment_date = now, e_is_completed = False\<rparr>]\<rparr>"

section \<open>Example data\<close>

text \<open>
  A quiz of two questions with correct indices 1 and 2, a quiz of three questions, a
  question whose stored index lies outside its two options, and a state with one published
  free module that holds the two quizzes and a note, and in which learner 3 is enrolled.
\<close>

definition example_quiz :: "jsval list" where
  "example_quiz =
     [JObj [(''question_text'', JStr ''Q1''), (''options'', JArr [JStr ''a'', JStr ''b'', JStr ''c'']),
            (''correct_answer_index'', JNum 1)],
      JObj [(''question_text'', JStr ''Q2''), (''options'', JArr [JStr ''a'', JStr ''b'', JStr ''c'']),
            (''correct_answer_index'', JNum 2)]]"

definition example_quiz3 :: "jsval list" where
  "example_quiz3 =
     example_quiz @
     [JObj [(''question_text'', JStr ''Q3''), (''options'', JArr [JStr ''a'', JStr ''b'']),
            (''correct_answer_index'', JNum 0)]]"


definition example_db :: db where
  "example_db =
     \<lparr>modules = [\<lparr>m_id = 1, m_instructor_id = 1, m_is_published = True, m_price = 0\<rparr>],
      content = [\<lparr>c_id = 1, c_module_id = 1, c_title = ''Quiz'', c_content_type = ''Quizzes'',
                  c_content_text = None, c_file_path = None, c_quiz_data = Some example_quiz,
                  c_created_at = 0\<rparr>,
                 \<lparr>c_id = 2, c_module_id = 1, c_title = ''Second quiz'', c_content_type = ''Quizzes'',
                  c_content_text = None, c_file_path = None, c_quiz_data = Some example_quiz3,
                  c_created_at = 1\<rparr>,
                 \<lparr>c_id = 3, c_module_id = 1, c_title = ''Intro'', c_content_type = ''Notes'',
                  c_content_text = Some ''Read this first'', c_file_path = None, c_quiz_data = None,
                  c_created_at = 2\<rparr>],
      content_auto_increment = 4,
      enrollments = [\<lparr>e_user_id = 3, e_module_id = 1, e_enrollment_date = 0, e_is_completed = False\<rparr>],
      user_content_progress = [],
      user_quiz_attempts = [],
      strict_mode = True\<rparr>"

definition example_learner :: user where
  "example_learner = \<lparr>u_id = 3, u_role = Learner\<rparr>"

definition example_lecturer :: user where
  "example_lecturer = \<lparr>u_id = 1, u_role = Lecturer\<rparr>"

definition example_outsider :: user where
  "example_outsider = \<lparr>u_id = 9, u_role = Learner\<rparr>"

text \<open>A form that defines a quiz without questions, and the state after a lecturer posts it.\<close>

definition example_empty_quiz_form :: content_form where
  "example_empty_quiz_form =
     \<lparr>f_title = ''Empty quiz'', f_content_type = ''Quizzes'', f_content_text = [],
      f_file = None, f_quiz_data = Json (JArr [])\<rparr>"

definition example_db_empty_quiz :: db where
  "example_db_empty_quiz =
     fst (create_content example_db (Token example_lecturer) 1 example_empty_quiz_form 3)"


text \<open>The example state with the price of its module set to -1.00.\<close>

definition example_db_negative_price :: db where
  "example_db_negative_price =
     example_db\<lparr>modules := [\<lparr>m_id = 1, m_instructor_id = 1, m_is_published = True, m_price = - 100\<rparr>]\<rparr>"

text \<open>The example state with the price of its module set to 5.00.\<close>

definition example_db_paid :: db where
  "example_db_paid =
     example_db\<lparr>modules := [\<lparr>m_id = 1, m_instructor_id = 1, m_is_published = True, m_price = 500\<rparr>]\<rparr>"

text \<open>
  The example state after learner 3 has submitted the first quiz with two wrong answers,
  and the example state with no content at all.
\<close>

definition example_db_after_attempt :: db where
  "example_db_after_attempt =
     handle example_db (SubmitQuiz (Token example_learner) 1 (JArr [JNum 0, JNum 0]) 5 None)"

definition example_db_no_content :: db where
  "example_db_no_content = example_db\<lparr>content := []\<rparr>"

section \<open>Facts about \<open>parseInt\<close>\<close>















section \<open>Facts about grading\<close>






lemma grade_score_empty: "g_score (grade [] answers) = NaN"
  by (simp add: grade_def Let_def js_div_def grade_from.simps)

lemma truthy_get_prop: "truthy q \<Longrightarrow> get_prop q k = Inr (case get_prop q k of Inr v \<Rightarrow> v | Inl e \<Rightarrow> JUndefined)"
  by (cases q) simp_all




lemma grade_question_falsy: "\<not> truthy q \<Longrightarrow> \<not> grade_question q a"
  by (simp add: grade_question_def)








section \<open>Facts about the submission handler\<close>

lemma select_progress_append_attempt [simp]:
  "select_progress (d\<lparr>user_quiz_attempts := xs\<rparr>) u c = select_progress d u c"
  by (simp add: select_progress_def)

lemma select_content_append_attempt [simp]:
  "select_content (d\<lparr>user_quiz_attempts := xs\<rparr>) c = select_content d c"
  by (simp add: select_content_def)

text \<open>What a transaction that does not throw leaves behind.\<close>

lemma submit_transaction_Inr:
  assumes "submit_transaction d uid cid ans now fault = Inr (d', r)"
  shows "(d' = d \<and> r = reply 404 ''Quiz content not found or is not a quiz.'' \<and> select_quiz d cid = []) \<or>
         (\<exists>qc rest qs sc.
            select_quiz d cid = qc # rest \<and> c_quiz_data qc = Some qs \<and>
            to_decimal_5_2 (strict_mode d) (toFixed2 (g_score (grade qs ans))) = Inr sc \<and>
            r = \<lparr>status = 200, body = QuizSubmitted (grade qs ans)\<rparr> \<and>
            user_quiz_attempts d' = user_quiz_attempts d @
               [\<lparr>a_user_id = uid, a_quiz_content_id = cid, a_score = sc,
                 a_submitted_answers = ans, a_attempt_date = now\<rparr>] \<and>
            user_content_progress d' =
               (if select_progress d uid cid = []
                then user_content_progress d @
                       [\<lparr>p_user_id = uid, p_content_id = cid, p_is_completed = True, p_completed_at = now\<rparr>]
                else map (\<lambda>p. if p_user_id p = uid \<and> p_content_id p = cid
                               then p\<lparr>p_completed_at := now\<rparr> else p) (user_content_progress d)) \<and>
            modules d' = modules d \<and> content d' = content d \<and> enrollments d' = enrollments d \<and>
            content_auto_increment d' = content_auto_increment d \<and> strict_mode d' = strict_mode d)"
  using assms
  unfolding submit_transaction_def insert_attempt_def insert_progress_def update_progress_def Let_def
  by (auto split: list.splits option.splits sum.splits if_splits)


lemma submit_quiz_cases:
  assumes "submit_quiz d cred cid answers now fault = (d', r)"
  shows "(d' = d \<and> status r \<in> {400, 401, 403, 500}) \<or>
         (\<exists>u ans. cred = Token u \<and> u_role u = Learner \<and> answers = JArr ans \<and>
                  submit_transaction d (u_id u) cid ans now fault = Inr (d', r))"
  using assms
  unfolding submit_quiz_def authenticateToken_def authorizeRole_def reply_def
  by (auto split: credential.splits sum.splits option.splits jsval.splits if_splits prod.splits)


subsection \<open>Rows with a unique key\<close>

lemma filter_key_empty: "k \<notin> f ` set xs \<Longrightarrow> filter (\<lambda>x. f x = k) xs = []"
  by (induction xs) auto

lemma distinct_key_filter:
  "distinct (map f xs) \<Longrightarrow> filter (\<lambda>x. f x = k) xs = [] \<or> (\<exists>x. filter (\<lambda>x. f x = k) xs = [x])"
proof (induction xs)
  case Nil
  then show ?case by simp
next
  case (Cons a xs)
  show ?case
  proof (cases "f a = k")
    case True
    with Cons.prems have "k \<notin> f ` set xs" by auto
    then have "filter (\<lambda>x. f x = k) xs = []" by (rule filter_key_empty)
    with True show ?thesis by simp
  next
    case False
    with Cons show ?thesis by simp
  qed
qed

lemma select_progress_key:
  "select_progress d uid cid =
     filter (\<lambda>p. (p_user_id p, p_content_id p) = (uid, cid)) (user_content_progress d)"
  by (simp add: select_progress_def)

lemma select_progress_unique:
  assumes "unique_content_progress d"
  shows "select_progress d uid cid = [] \<or> (\<exists>p. select_progress d uid cid = [p])"
  unfolding select_progress_key
  using assms distinct_key_filter [of "\<lambda>p. (p_user_id p, p_content_id p)" "user_content_progress d" "(uid, cid)"]
  by (simp add: unique_content_progress_def)

lemma upserted_keys:
  "map (\<lambda>p. (p_user_id p, p_content_id p)) (upserted ps uid cid now) =
     (if filter (\<lambda>p. p_user_id p = uid \<and> p_content_id p = cid) ps = []
      then map (\<lambda>p. (p_user_id p, p_content_id p)) ps @ [(uid, cid)]
      else map (\<lambda>p. (p_user_id p, p_content_id p)) ps)"
  by (simp add: upserted_def comp_def cong: map_cong)

lemma upserted_distinct:
  assumes "distinct (map (\<lambda>p. (p_user_id p, p_content_id p)) ps)"
  shows "distinct (map (\<lambda>p. (p_user_id p, p_content_id p)) (upserted ps uid cid now))"
proof (cases "filter (\<lambda>p. p_user_id p = uid \<and> p_content_id p = cid) ps = []")
  case True
  then have "(uid, cid) \<notin> set (map (\<lambda>p. (p_user_id p, p_content_id p)) ps)"
    by (auto simp add: filter_empty_conv)
  with assms True show ?thesis by (simp add: upserted_keys)
next
  case False
  with assms show ?thesis by (simp add: upserted_keys)
qed

lemma upserted_completed:
  "list_all p_is_completed ps \<Longrightarrow> list_all p_is_completed (upserted ps uid cid now)"
  by (auto simp add: upserted_def list_all_iff)

lemma upserted_others:
  "filter (\<lambda>p. \<not> (p_user_id p = uid \<and> p_content_id p = cid)) (upserted ps uid cid now) =
   filter (\<lambda>p. \<not> (p_user_id p = uid \<and> p_content_id p = cid)) ps"
proof (cases "filter (\<lambda>p. p_user_id p = uid \<and> p_content_id p = cid) ps = []")
  case True
  then show ?thesis by (simp add: upserted_def)
next
  case False
  have "filter (\<lambda>p. \<not> (p_user_id p = uid \<and> p_content_id p = cid))
          (map (\<lambda>p. if p_user_id p = uid \<and> p_content_id p = cid then p\<lparr>p_completed_at := now\<rparr> else p) ps)
        = filter (\<lambda>p. \<not> (p_user_id p = uid \<and> p_content_id p = cid)) ps"
    by (induction ps) auto
  with False show ?thesis by (simp add: upserted_def)
qed

lemma upserted_selected:
  assumes "distinct (map (\<lambda>p. (p_user_id p, p_content_id p)) ps)" "list_all p_is_completed ps"
  shows "filter (\<lambda>p. p_user_id p = uid \<and> p_content_id p = cid) (upserted ps uid cid now) =
           [\<lparr>p_user_id = uid, p_content_id = cid, p_is_completed = True, p_completed_at = now\<rparr>]"
proof (cases "filter (\<lambda>p. p_user_id p = uid \<and> p_content_id p = cid) ps = []")
  case True
  then show ?thesis by (simp add: upserted_def)
next
  case False
  have eq: "(\<lambda>p. p_user_id p = uid \<and> p_content_id p = cid) = (\<lambda>p. (p_user_id p, p_content_id p) = (uid, cid))"
    by auto
  from False obtain p where p: "filter (\<lambda>p. p_user_id p = uid \<and> p_content_id p = cid) ps = [p]"
    using distinct_key_filter [OF assms(1), of "(uid, cid)"] unfolding eq by auto
  then have "p \<in> set (filter (\<lambda>p. p_user_id p = uid \<and> p_content_id p = cid) ps)" by simp
  then have pk: "p_user_id p = uid" "p_content_id p = cid" "p \<in> set ps" by simp_all
  with assms(2) have pc: "p_is_completed p" by (simp add: list_all_iff)
  have "filter (\<lambda>p. p_user_id p = uid \<and> p_content_id p = cid)
          (map (\<lambda>p. if p_user_id p = uid \<and> p_content_id p = cid then p\<lparr>p_completed_at := now\<rparr> else p) ps)
        = map (\<lambda>p. p\<lparr>p_completed_at := now\<rparr>) (filter (\<lambda>p. p_user_id p = uid \<and> p_content_id p = cid) ps)"
    by (induction ps) auto
  also have "\<dots> = [p\<lparr>p_completed_at := now\<rparr>]" by (simp add: p)
  also have "p\<lparr>p_completed_at := now\<rparr> =
       \<lparr>p_user_id = uid, p_content_id = cid, p_is_completed = True, p_completed_at = now\<rparr>"
    using pk pc by (cases p) simp
  finally show ?thesis using False by (simp add: upserted_def)
qed

lemma upserted_length:
  "length (upserted ps uid cid now) =
     (if filter (\<lambda>p. p_user_id p = uid \<and> p_content_id p = cid) ps = [] then Suc (length ps) else length ps)"
  by (simp add: upserted_def)

lemma submit_transaction_progress:
  assumes "submit_transaction d uid cid ans now fault = Inr (d', r)" "status r = 200"
  shows "user_content_progress d' = upserted (user_content_progress d) uid cid now"
  using submit_transaction_Inr [OF assms(1)] assms(2)
  by (auto simp add: upserted_def select_progress_def reply_def)




section \<open>Facts about content creation\<close>











section \<open>Facts about enrollment\<close>

lemma enroll_learner:
  assumes "u_role u = Learner" "mid \<noteq> 0"
  shows "enroll_interleaved d_read d_write (Token u) (Some mid) now =
           (case enroll_checks d_read (u_id u) mid of
              Some r \<Rightarrow> (d_write, r)
            | None \<Rightarrow>
               (case insert_enrollment d_write (u_id u) mid now of
                  Inl e \<Rightarrow> (d_write, reply 500 ''Server error during enrollment'')
                | Inr d' \<Rightarrow> (d', reply 201 ''Enrollment successful'')))"
  using assms by (simp add: enroll_interleaved_def authenticateToken_def authorizeRole_def)

lemma enroll_checks_None:
  "enroll_checks d uid mid = None \<longleftrightarrow>
     (\<exists>m rest. select_module d mid = m # rest \<and> m_is_published m \<and> m_price m \<le> 0) \<and>
     select_enrollment d uid mid = []"
  by (auto simp add: enroll_checks_def split: list.splits)

lemma enroll_checks_status:
  "enroll_checks d uid mid = Some r \<Longrightarrow> status r \<noteq> 201"
  by (auto simp add: enroll_checks_def reply_def split: list.splits if_splits)

lemma insert_enrollment_after_checks:
  assumes "enroll_checks d uid mid = None"
  shows "insert_enrollment d uid mid now =
           Inr (d\<lparr>enrollments := enrollments d @
                  [\<lparr>e_user_id = uid, e_module_id = mid, e_enrollment_date = now, e_is_completed = False\<rparr>]\<rparr>)"
  using assms unfolding enroll_checks_None by (auto simp add: insert_enrollment_def)

lemma insert_enrollment_unique:
  assumes "unique_enrollment d" "insert_enrollment d uid mid now = Inr d'"
  shows "unique_enrollment d'"
proof -
  from assms(2) have none: "select_enrollment d uid mid = []"
    and d': "enrollments d' = enrollments d @
        [\<lparr>e_user_id = uid, e_module_id = mid, e_enrollment_date = now, e_is_completed = False\<rparr>]"
    by (auto simp add: insert_enrollment_def split: if_splits)
  from none have "(uid, mid) \<notin> set (map (\<lambda>e. (e_user_id e, e_module_id e)) (enrollments d))"
    by (auto simp add: select_enrollment_def filter_empty_conv)
  with assms(1) show ?thesis by (simp add: unique_enrollment_def d')
qed

lemma enroll_interleaved_unique:
  assumes "unique_enrollment d_write"
  shows "unique_enrollment (fst (enroll_interleaved d_read d_write cred module_id now))"
  using assms insert_enrollment_unique [of d_write]
  by (auto simp add: enroll_interleaved_def split: sum.splits option.splits)

lemma select_enrollment_after_insert:
  "select_enrollment (d\<lparr>enrollments := enrollments d @
        [\<lparr>e_user_id = uid, e_module_id = mid, e_enrollment_date = now, e_is_completed = False\<rparr>]\<rparr>) uid mid \<noteq> []"
  by (simp add: select_enrollment_def)

lemma select_module_enrollments [simp]:
  "select_module (d\<lparr>enrollments := es\<rparr>) mid = select_module d mid"
  by (simp add: select_module_def)


lemma enroll_outcome:
  assumes "u_role u = Learner" "mid \<noteq> 0"
  shows "enroll d (Token u) (Some mid) now =
           (case enroll_checks d (u_id u) mid of
              Some r \<Rightarrow> (d, r)
            | None \<Rightarrow> (with_enrollment d (u_id u) mid now, reply 201 ''Enrollment successful''))"
proof (cases "enroll_checks d (u_id u) mid")
  case None
  then show ?thesis
    using insert_enrollment_after_checks [OF None, of now]
    by (simp add: enroll_def enroll_learner [OF assms] with_enrollment_def)
next
  case (Some r)
  then show ?thesis by (simp add: enroll_def enroll_learner [OF assms])
qed

lemma enroll_checks_after_success:
  assumes "enroll_checks d uid mid = None"
  shows "enroll_checks (with_enrollment d uid mid now) uid mid = Some (reply 400 ''Already enrolled in this module'')"
proof -
  from assms obtain m rest where m: "select_module d mid = m # rest" "m_is_published m" "m_price m \<le> 0"
    unfolding enroll_checks_None by blast
  have "select_enrollment (with_enrollment d uid mid now) uid mid \<noteq> []"
    unfolding with_enrollment_def by (rule select_enrollment_after_insert)
  then have "0 < length (select_enrollment (with_enrollment d uid mid now) uid mid)" by simp
  moreover have "select_module (with_enrollment d uid mid now) mid = m # rest"
    using m(1) by (simp add: with_enrollment_def)
  ultimately show ?thesis using m(2,3) by (simp add: enroll_checks_def)
qed

section \<open>Facts about the progress table\<close>

lemma upserted_length_le: "length ps \<le> length (upserted ps uid cid now)"
  by (simp add: upserted_def)

lemma upserted_old_rows:
  assumes "i < length ps"
  shows "\<exists>t. upserted ps uid cid now ! i = (ps ! i)\<lparr>p_completed_at := t\<rparr>"
proof (cases "filter (\<lambda>p. p_user_id p = uid \<and> p_content_id p = cid) ps = []")
  case True
  then have "upserted ps uid cid now ! i = ps ! i"
    using assms by (simp add: upserted_def nth_append)
  then have "upserted ps uid cid now ! i = (ps ! i)\<lparr>p_completed_at := p_completed_at (ps ! i)\<rparr>"
    by simp
  then show ?thesis by blast
next
  case False
  show ?thesis
  proof (cases "p_user_id (ps ! i) = uid \<and> p_content_id (ps ! i) = cid")
    case True
    with False assms have "upserted ps uid cid now ! i = (ps ! i)\<lparr>p_completed_at := now\<rparr>"
      by (simp add: upserted_def)
    then show ?thesis by blast
  next
    case no: False
    with False assms have "upserted ps uid cid now ! i = ps ! i"
      by (auto simp add: upserted_def)
    then have "upserted ps uid cid now ! i = (ps ! i)\<lparr>p_completed_at := p_completed_at (ps ! i)\<rparr>"
      by simp
    then show ?thesis by blast
  qed
qed

lemma upserted_new_rows:
  assumes "length ps \<le> i" "i < length (upserted ps uid cid now)"
  shows "p_is_completed (upserted ps uid cid now ! i)"
proof (cases "filter (\<lambda>p. p_user_id p = uid \<and> p_content_id p = cid) ps = []")
  case True
  with assms have "i = length ps" by (simp add: upserted_def)
  with True show ?thesis by (simp add: upserted_def)
next
  case False
  with assms show ?thesis by (simp add: upserted_def)
qed

lemma upserted_selected_nonempty:
  "filter (\<lambda>p. p_user_id p = uid \<and> p_content_id p = cid) (upserted ps uid cid now) \<noteq> []"
proof (cases "filter (\<lambda>p. p_user_id p = uid \<and> p_content_id p = cid) ps = []")
  case True
  then show ?thesis by (simp add: upserted_def)
next
  case False
  then obtain p where p: "p \<in> set ps" "p_user_id p = uid" "p_content_id p = cid"
    by (auto simp add: filter_empty_conv)
  then have "p\<lparr>p_completed_at := now\<rparr> \<in> set (upserted ps uid cid now)"
    using False by (force simp add: upserted_def)
  then have "p\<lparr>p_completed_at := now\<rparr> \<in>
      set (filter (\<lambda>p. p_user_id p = uid \<and> p_content_id p = cid) (upserted ps uid cid now))"
    using p by simp
  then show ?thesis by (metis empty_iff empty_set)
qed

lemma complete_content_progress:
  "user_content_progress (fst (complete_content d cred cid now)) = user_content_progress d \<or>
   (\<exists>uid. user_content_progress (fst (complete_content d cred cid now)) =
            upserted (user_content_progress d) uid cid now)"
  unfolding complete_content_def Let_def insert_progress_def update_progress_def upserted_def
    select_progress_def
  by (auto split: sum.splits option.splits list.splits if_splits)

lemma submit_quiz_progress:
  "user_content_progress (fst (submit_quiz d cred cid answers now fault)) = user_content_progress d \<or>
   (\<exists>uid. user_content_progress (fst (submit_quiz d cred cid answers now fault)) =
            upserted (user_content_progress d) uid cid now)"
proof -
  obtain d' r where dr: "submit_quiz d cred cid answers now fault = (d', r)"
    by (cases "submit_quiz d cred cid answers now fault")
  from submit_quiz_cases [OF dr] show ?thesis
  proof
    assume "d' = d \<and> status r \<in> {400, 401, 403, 500}"
    with dr show ?thesis by simp
  next
    assume "\<exists>u ans. cred = Token u \<and> u_role u = Learner \<and> answers = JArr ans \<and>
                  submit_transaction d (u_id u) cid ans now fault = Inr (d', r)"
    then obtain u :: user and ans
      where t: "submit_transaction d (u_id u) cid ans now fault = Inr (d', r)"
      by blast
    from submit_transaction_Inr [OF t] show ?thesis
    proof
      assume "d' = d \<and> r = reply 404 ''Quiz content not found or is not a quiz.'' \<and> select_quiz d cid = []"
      with dr show ?thesis by simp
    next
      assume "\<exists>qc rest qs sc.
            select_quiz d cid = qc # rest \<and> c_quiz_data qc = Some qs \<and>
            to_decimal_5_2 (strict_mode d) (toFixed2 (g_score (grade qs ans))) = Inr sc \<and>
            r = \<lparr>status = 200, body = QuizSubmitted (grade qs ans)\<rparr> \<and>
            user_quiz_attempts d' = user_quiz_attempts d @
               [\<lparr>a_user_id = u_id u, a_quiz_content_id = cid, a_score = sc,
                 a_submitted_answers = ans, a_attempt_date = now\<rparr>] \<and>
            user_content_progress d' =
               (if select_progress d (u_id u) cid = []
                then user_content_progress d @
                       [\<lparr>p_user_id = u_id u, p_content_id = cid, p_is_completed = True, p_completed_at = now\<rparr>]
                else map (\<lambda>p. if p_user_id p = u_id u \<and> p_content_id p = cid
                               then p\<lparr>p_completed_at := now\<rparr> else p) (user_content_progress d)) \<and>
            modules d' = modules d \<and> content d' = content d \<and> enrollments d' = enrollments d \<and>
            content_auto_increment d' = content_auto_increment d \<and> strict_mode d' = strict_mode d"
      then have "status r = 200" by auto
      with t have "user_content_progress d' = upserted (user_content_progress d) (u_id u) cid now"
        by (rule submit_transaction_progress)
      with dr show ?thesis by auto
    qed
  qed
qed

lemma enroll_progress:
  "user_content_progress (fst (enroll d cred module_id now)) = user_content_progress d"
  unfolding enroll_def enroll_interleaved_def insert_enrollment_def
  by (auto split: sum.splits option.splits if_splits)

lemma insert_content_progress:
  "insert_content d m t ct x f q now = Inr d' \<Longrightarrow> user_content_progress d' = user_content_progress d"
  by (auto simp add: insert_content_def split: if_splits sum.splits)

lemma create_content_progress:
  "user_content_progress (fst (create_content d cred moduleId form now)) = user_content_progress d"
proof (cases "authenticateToken cred")
  case (Inl r)
  then show ?thesis by (simp add: create_content_def)
next
  case (Inr u)
  note u = Inr
  show ?thesis
  proof (cases "authorizeRole [Lecturer, Admin] u")
    case (Some r)
    with u show ?thesis by (simp add: create_content_def)
  next
    case None
    note a = None
    show ?thesis
    proof (cases "f_title form = [] \<or> f_content_type form = []")
      case True
      with u a show ?thesis by (simp add: create_content_def Let_def)
    next
      case False
      note f = False
      show ?thesis
      proof (cases "select_module d moduleId")
        case Nil
        with u a f show ?thesis by (simp add: create_content_def Let_def)
      next
        case (Cons m rest)
        note m = Cons
        show ?thesis
        proof (cases "u_role u = Lecturer \<and> m_instructor_id m \<noteq> u_id u")
          case True
          with u a f m show ?thesis by (simp add: create_content_def Let_def)
        next
          case False
          note o = False
          let ?p = "if f_content_type form = ''Quizzes'' \<and> f_quiz_data form \<noteq> NoQuizData
                    then (case parse_quiz_data (f_quiz_data form) of
                            Inl e \<Rightarrow> Inl e | Inr qs \<Rightarrow> Inr (Some qs))
                    else Inr None"
          show ?thesis
          proof (cases ?p)
            case (Inl e)
            with u a f m o show ?thesis by (simp add: create_content_def Let_def)
          next
            case (Inr pq)
            note p = Inr
            show ?thesis
            proof (cases "insert_content d moduleId (f_title form) (f_content_type form)
                 (if f_content_text form = [] then None else Some (f_content_text form))
                 (case f_file form of None \<Rightarrow> None | Some fname \<Rightarrow> Some (''/uploads/'' @ fname))
                 pq now")
              case (Inl e)
              with u a f m o p show ?thesis by (simp add: create_content_def Let_def)
            next
              case (Inr d')
              then have "user_content_progress d' = user_content_progress d"
                by (rule insert_content_progress)
              with Inr u a f m o p show ?thesis by (simp add: create_content_def Let_def)
            qed
          qed
        qed
      qed
    qed
  qed
qed

lemma handle_progress:
  "user_content_progress (handle d req) = user_content_progress d \<or>
   (\<exists>uid cid now. user_content_progress (handle d req) = upserted (user_content_progress d) uid cid now)"
proof (cases req)
  case (SubmitQuiz cred cid answers now fault)
  then show ?thesis using submit_quiz_progress [of d cred cid answers now fault] by auto
next
  case (CompleteContent cred cid now)
  then show ?thesis using complete_content_progress [of d cred cid now] by auto
next
  case (Enroll cred module_id now)
  then show ?thesis by (simp add: enroll_progress)
next
  case (CreateContent cred moduleId form now)
  then show ?thesis by (simp add: create_content_progress)
qed

lemma handle_all_completed: "all_completed d \<Longrightarrow> all_completed (handle d req)"
  using handle_progress [of d req] upserted_completed
  by (auto simp add: all_completed_def)

lemma handle_unique: "unique_content_progress d \<Longrightarrow> unique_content_progress (handle d req)"
  using handle_progress [of d req] upserted_distinct
  by (auto simp add: unique_content_progress_def)

lemma run_all_completed: "all_completed d \<Longrightarrow> all_completed (run d reqs)"
  unfolding run_def by (induction reqs arbitrary: d) (simp_all add: handle_all_completed)

lemma run_unique: "unique_content_progress d \<Longrightarrow> unique_content_progress (run d reqs)"
  unfolding run_def by (induction reqs arbitrary: d) (simp_all add: handle_unique)


lemma submit_quiz_marks_completed:
  assumes "all_completed d" "submit_quiz d (Token u) cid answers now fault = (d', r)" "status r = 200"
  shows "select_progress d' (u_id u) cid \<noteq> [] \<and>
         list_all p_is_completed (select_progress d' (u_id u) cid)"
proof -
  from submit_quiz_cases [OF assms(2)] assms(3)
  obtain ans where t: "submit_transaction d (u_id u) cid ans now fault = Inr (d', r)"
    by auto
  have ps: "user_content_progress d' = upserted (user_content_progress d) (u_id u) cid now"
    using t assms(3) by (rule submit_transaction_progress)
  have "list_all p_is_completed (user_content_progress d')"
    unfolding ps using assms(1) upserted_completed by (simp add: all_completed_def)
  then have "list_all p_is_completed (select_progress d' (u_id u) cid)"
    by (simp add: select_progress_def list_all_iff)
  moreover have "select_progress d' (u_id u) cid \<noteq> []"
    unfolding select_progress_def ps by (rule upserted_selected_nonempty)
  ultimately show ?thesis by simp
qed

section \<open>Facts about module content and progress\<close>

lemma join_row:
  assumes "unique_content_progress d"
  shows "(case filter (\<lambda>ucp. c_id c = p_content_id ucp \<and> p_user_id ucp = uid) (user_content_progress d) of
            [] \<Rightarrow> [\<lparr>cv_row = c, user_completed_content = False\<rparr>]
          | ucps \<Rightarrow> map (\<lambda>ucp. \<lparr>cv_row = c, user_completed_content = p_is_completed ucp\<rparr>) ucps) =
         [\<lparr>cv_row = c, user_completed_content = completed_by d uid (c_id c)\<rparr>]"
proof -
  let ?ps = "user_content_progress d"
  have eq: "(\<lambda>ucp. c_id c = p_content_id ucp \<and> p_user_id ucp = uid) =
            (\<lambda>p. (p_user_id p, p_content_id p) = (uid, c_id c))"
    by auto
  have dk: "distinct (map (\<lambda>p. (p_user_id p, p_content_id p)) ?ps)"
    using assms by (simp add: unique_content_progress_def)
  have cb: "completed_by d uid (c_id c) \<longleftrightarrow>
        (\<exists>p \<in> set (filter (\<lambda>p. (p_user_id p, p_content_id p) = (uid, c_id c)) ?ps). p_is_completed p)"
    by (auto simp add: completed_by_def list_ex_iff)
  from distinct_key_filter [OF dk, of "(uid, c_id c)"]
  show ?thesis
  proof
    assume e: "filter (\<lambda>p. (p_user_id p, p_content_id p) = (uid, c_id c)) ?ps = []"
    then have "\<not> completed_by d uid (c_id c)" unfolding cb by simp
    with e show ?thesis unfolding eq by simp
  next
    assume "\<exists>x. filter (\<lambda>p. (p_user_id p, p_content_id p) = (uid, c_id c)) ?ps = [x]"
    then obtain p where p: "filter (\<lambda>p. (p_user_id p, p_content_id p) = (uid, c_id c)) ?ps = [p]"
      by blast
    then have "completed_by d uid (c_id c) \<longleftrightarrow> p_is_completed p" unfolding cb by simp
    with p show ?thesis unfolding eq by simp
  qed
qed

lemma content_join_unique:
  assumes "unique_content_progress d"
  shows "content_join d uid moduleId =
           map (\<lambda>c. \<lparr>cv_row = c, user_completed_content = completed_by d uid (c_id c)\<rparr>)
             (sort_key c_created_at (module_content d moduleId))"
proof -
  have "concat (map (\<lambda>c. [g c]) xs) = map g xs" for g :: "content_row \<Rightarrow> content_view" and xs
    by (induction xs) simp_all
  then show ?thesis
    unfolding content_join_def module_content_def join_row [OF assms] by simp
qed

lemma content_join_total:
  assumes "unique_content_progress d"
  shows "length (content_join d uid moduleId) = length (module_content d moduleId)"
  by (simp add: content_join_unique [OF assms])

lemma length_filter_sort_key:
  "length (filter P (sort_key f xs)) = length (filter P xs)"
  by (simp add: filter_sort)

lemma content_join_completed:
  assumes "unique_content_progress d"
  shows "length (filter user_completed_content (content_join d uid moduleId)) =
           length (filter (\<lambda>c. completed_by d uid (c_id c)) (module_content d moduleId))"
proof -
  have "filter user_completed_content
          (map (\<lambda>c. \<lparr>cv_row = c, user_completed_content = completed_by d uid (c_id c)\<rparr>) xs) =
        map (\<lambda>c. \<lparr>cv_row = c, user_completed_content = completed_by d uid (c_id c)\<rparr>)
          (filter (\<lambda>c. completed_by d uid (c_id c)) xs)" for xs
    by (induction xs) simp_all
  then show ?thesis
    by (simp add: content_join_unique [OF assms] length_filter_sort_key)
qed

lemma module_progress_of_eq:
  "module_progress_of items =
     \<lparr>total_content_items = length items,
      completed_content_items = length (filter user_completed_content items),
      progressPercentage =
        (if items = [] then Fin 0
         else Fin (of_nat (length (filter user_completed_content items)) / of_nat (length items) * 100))\<rparr>"
  by (simp add: module_progress_of_def Let_def js_div_def)

lemma get_module_content_learner:
  assumes "select_module d moduleId = m # rest" "u_role u = Learner"
    "m_is_published m \<or> select_enrollment d (u_id u) moduleId \<noteq> []"
  shows "get_module_content d (Token u) moduleId =
           \<lparr>status = 200, body = ContentList (content_join d (u_id u) moduleId)\<rparr>"
  using assms by (auto simp add: get_module_content_def authenticateToken_def)

section \<open>The claims\<close>



text \<open>
  Claim C2. A quiz submission either changes nothing (every response other than 200,
  whatever statement of the transaction the storage driver rejects) or, with the response
  200, has exactly two effects: one new row at the end of \<open>user_quiz_attempts\<close>, carrying
  the learner, the quiz, the stored score and the submitted answers as they came, and the
  upsert of the progress row of that learner and quiz, after which the table holds exactly
  one row for the pair, completed and stamped with the time of the submission, every
  other row is as before, and the table grew by one row only if the pair had none. The
  unique key of the progress table and the completion of all its rows are kept, so a
  repeated submission meets the same hypotheses and leaves one row again.
\<close>

theorem submit_appends_attempt_and_upserts_progress:
  assumes "unique_content_progress d" and "all_completed d"
    and "submit_quiz d cred cid answers now fault = (d', r)"
  shows "((status r \<noteq> 200 \<and> d' = d) \<or>
          (status r = 200 \<and>
           (\<exists>u ans sc.
              cred = Token u \<and> answers = JArr ans \<and>
              user_quiz_attempts d' = user_quiz_attempts d @
                [\<lparr>a_user_id = u_id u, a_quiz_content_id = cid, a_score = sc,
                  a_submitted_answers = ans, a_attempt_date = now\<rparr>] \<and>
              (\<exists>qc rest qs. select_quiz d cid = qc # rest \<and> c_quiz_data qc = Some qs \<and>
                 to_decimal_5_2 (strict_mode d) (toFixed2 (g_score (grade qs ans))) = Inr sc) \<and>
              select_progress d' (u_id u) cid =
                [\<lparr>p_user_id = u_id u, p_content_id = cid, p_is_completed = True, p_completed_at = now\<rparr>] \<and>
              other_progress d' (u_id u) cid = other_progress d (u_id u) cid \<and>
              length (user_content_progress d') =
                (if select_progress d (u_id u) cid = [] then Suc (length (user_content_progress d))
                 else length (user_content_progress d)) \<and>
              modules d' = modules d \<and> content d' = content d \<and> enrollments d' = enrollments d)))
         \<and> unique_content_progress d' \<and> all_completed d'"
proof -
  from submit_quiz_cases [OF assms(3)]
  consider (rejected) "d' = d" "status r \<in> {400, 401, 403, 500}"
    | (ran) u ans where "cred = Token u" "answers = JArr ans"
        "submit_transaction d (u_id u) cid ans now fault = Inr (d', r)"
    by blast
  then show ?thesis
  proof cases
    case rejected
    then show ?thesis using assms(1,2) by auto
  next
    case ran
    from submit_transaction_Inr [OF ran(3)]
    consider (nf) "d' = d" "r = reply 404 ''Quiz content not found or is not a quiz.''"
      | (ok) qc rest qs sc where
          "select_quiz d cid = qc # rest" "c_quiz_data qc = Some qs"
          "to_decimal_5_2 (strict_mode d) (toFixed2 (g_score (grade qs ans))) = Inr sc"
          "r = \<lparr>status = 200, body = QuizSubmitted (grade qs ans)\<rparr>"
          "user_quiz_attempts d' = user_quiz_attempts d @
             [\<lparr>a_user_id = u_id u, a_quiz_content_id = cid, a_score = sc,
               a_submitted_answers = ans, a_attempt_date = now\<rparr>]"
          "modules d' = modules d" "content d' = content d" "enrollments d' = enrollments d"
      by blast
    then show ?thesis
    proof cases
      case nf
      then show ?thesis using assms(1,2) by (simp add: reply_def)
    next
      case ok
      have st: "status r = 200" using ok(4) by simp
      have ps: "user_content_progress d' = upserted (user_content_progress d) (u_id u) cid now"
        using ran(3) st by (rule submit_transaction_progress)
      have dk: "distinct (map (\<lambda>p. (p_user_id p, p_content_id p)) (user_content_progress d))"
        using assms(1) by (simp add: unique_content_progress_def)
      have ac: "list_all p_is_completed (user_content_progress d)"
        using assms(2) by (simp add: all_completed_def)
      have sel: "select_progress d' (u_id u) cid =
          [\<lparr>p_user_id = u_id u, p_content_id = cid, p_is_completed = True, p_completed_at = now\<rparr>]"
        unfolding select_progress_def ps using dk ac by (rule upserted_selected)
      have oth: "other_progress d' (u_id u) cid = other_progress d (u_id u) cid"
        unfolding other_progress_def ps by (rule upserted_others)
      have len: "length (user_content_progress d') =
          (if select_progress d (u_id u) cid = [] then Suc (length (user_content_progress d))
           else length (user_content_progress d))"
        unfolding ps select_progress_def by (rule upserted_length)
      have u': "unique_content_progress d'"
        unfolding unique_content_progress_def ps using dk by (rule upserted_distinct)
      have a': "all_completed d'"
        unfolding all_completed_def ps using ac by (rule upserted_completed)
      have "\<exists>qc rest qs. select_quiz d cid = qc # rest \<and> c_quiz_data qc = Some qs \<and>
                 to_decimal_5_2 (strict_mode d) (toFixed2 (g_score (grade qs ans))) = Inr sc"
        using ok(1,2,3) by blast
      with st ran(1,2) ok(5,6,7,8) sel oth len u' a' show ?thesis by blast
    qed
  qed
qed

theorem submit_appends_attempt_and_upserts_progress_witness:
  "unique_content_progress example_db \<and> all_completed example_db \<and>
   status (snd (submit_quiz example_db (Token example_learner) 1 (JArr [JNum 1, JNum 0]) 5 None)) = 200 \<and>
   unique_content_progress (fst (submit_quiz example_db (Token example_learner) 1 (JArr [JNum 1, JNum 0]) 5 None)) \<and>
   all_completed (fst (submit_quiz example_db (Token example_learner) 1 (JArr [JNum 1, JNum 0]) 5 None))"
proof -
  have h1: "unique_content_progress example_db" by code_simp
  have h2: "all_completed example_db" by code_simp
  have h3: "submit_quiz example_db (Token example_learner) 1 (JArr [JNum 1, JNum 0]) 5 None =
              (fst (submit_quiz example_db (Token example_learner) 1 (JArr [JNum 1, JNum 0]) 5 None),
               snd (submit_quiz example_db (Token example_learner) 1 (JArr [JNum 1, JNum 0]) 5 None))"
    by simp
  have h4: "status (snd (submit_quiz example_db (Token example_learner) 1 (JArr [JNum 1, JNum 0]) 5 None)) = 200"
    by code_simp
  from submit_appends_attempt_and_upserts_progress [OF h1 h2 h3] h1 h2 h4
  show ?thesis by blast
qed

text \<open>
  Claim C3 does not hold of the code. Content creation accepts a quiz without questions,
  and grading it divides zero by zero: the score is \<open>NaN\<close> and no check stands before the
  division. What follows depends on the store. In strict mode the \<open>INSERT\<close> of the attempt
  rejects the text \<open>NaN\<close> and the request ends in the handler's general 500 response; in
  the other mode the request is answered with 200 and the score \<open>NaN\<close>, an attempt with
  the score 0.00 is stored and the quiz is marked completed.
\<close>

theorem zero_question_quiz_is_graded_NaN:
  "snd (create_content example_db (Token example_lecturer) 1 example_empty_quiz_form 3) =
     reply 201 ''Content added successfully'' \<and>
   map c_quiz_data (select_quiz example_db_empty_quiz 4) = [Some []] \<and>
   grade [] [] = \<lparr>g_score = NaN, g_correctAnswers = 0, g_totalQuestions = 0\<rparr> \<and>
   submit_quiz example_db_empty_quiz (Token example_learner) 4 (JArr []) 5 None =
     (example_db_empty_quiz, reply 500 ''Server error submitting quiz.'') \<and>
   snd (submit_quiz (example_db_empty_quiz\<lparr>strict_mode := False\<rparr>) (Token example_learner) 4 (JArr []) 5 None) =
     \<lparr>status = 200,
      body = QuizSubmitted \<lparr>g_score = NaN, g_correctAnswers = 0, g_totalQuestions = 0\<rparr>\<rparr> \<and>
   map a_score (user_quiz_attempts
     (fst (submit_quiz (example_db_empty_quiz\<lparr>strict_mode := False\<rparr>) (Token example_learner) 4 (JArr []) 5 None))) =
     [0] \<and>
   map p_is_completed (user_content_progress
     (fst (submit_quiz (example_db_empty_quiz\<lparr>strict_mode := False\<rparr>) (Token example_learner) 4 (JArr []) 5 None))) =
     [True]"
  by code_simp







text \<open>
  Claim C6 does not hold of the code. The handler selects the quiz's \<open>module_id\<close> and
  never looks the learner's enrollment up: a learner who is not enrolled in the module is
  graded, and an attempt row and a completed progress row are written. The handler that
  marks content complete does make that check, and answers the same learner with 403. The
  other precondition is checked: content that is not a quiz is answered with 404 and
  nothing is written.
\<close>

theorem submit_by_learner_not_enrolled_is_graded:
  "select_enrollment example_db (u_id example_outsider) 1 = [] \<and>
   snd (submit_quiz example_db (Token example_outsider) 1 (JArr [JNum 1, JNum 2]) 5 None) =
     \<lparr>status = 200,
      body = QuizSubmitted \<lparr>g_score = Fin 100, g_correctAnswers = 2, g_totalQuestions = 2\<rparr>\<rparr> \<and>
   user_quiz_attempts (fst (submit_quiz example_db (Token example_outsider) 1 (JArr [JNum 1, JNum 2]) 5 None)) =
     [\<lparr>a_user_id = 9, a_quiz_content_id = 1, a_score = 10000,
       a_submitted_answers = [JNum 1, JNum 2], a_attempt_date = 5\<rparr>] \<and>
   user_content_progress (fst (submit_quiz example_db (Token example_outsider) 1 (JArr [JNum 1, JNum 2]) 5 None)) =
     [\<lparr>p_user_id = 9, p_content_id = 1, p_is_completed = True, p_completed_at = 5\<rparr>] \<and>
   complete_content example_db (Token example_outsider) 1 5 =
     (example_db, reply 403 ''You are not enrolled in the module this content belongs to.'') \<and>
   submit_quiz example_db (Token example_learner) 3 (JArr [JNum 1]) 5 None =
     (example_db, reply 404 ''Quiz content not found or is not a quiz.'')"
  by code_simp




text \<open>
  Claim C8. For a learner who may read a module (it is published, or the learner is
  enrolled), the progress the client computes from the server's content response is, on
  every read, a function of the stored rows at that moment: \<open>totalCount\<close> is the number of
  content items of the module, \<open>completedCount\<close> the number of those for which the learner
  has a completed progress row, and the percentage is \<open>completedCount / totalCount * 100\<close>,
  or 0 when the module has no content item. It is never \<open>NaN\<close>. (The client then shows
  the percentage rounded to an integer.)
\<close>

theorem module_progress_recomputed_from_store:
  assumes "unique_content_progress d" and "select_module d moduleId = m # rest"
    and "u_role u = Learner"
    and "m_is_published m \<or> select_enrollment d (u_id u) moduleId \<noteq> []"
  shows "learner_module_progress d (Token u) moduleId =
           Some \<lparr>total_content_items = length (module_content d moduleId),
                 completed_content_items =
                   length (filter (\<lambda>c. completed_by d (u_id u) (c_id c)) (module_content d moduleId)),
                 progressPercentage =
                   (if module_content d moduleId = [] then Fin 0
                    else Fin (of_nat (length (filter (\<lambda>c. completed_by d (u_id u) (c_id c))
                                                 (module_content d moduleId)))
                                / of_nat (length (module_content d moduleId)) * 100))\<rparr> \<and>
         progressPercentage (module_progress_of []) = Fin 0"
proof -
  have g: "get_module_content d (Token u) moduleId =
           \<lparr>status = 200, body = ContentList (content_join d (u_id u) moduleId)\<rparr>"
    using assms(2,3,4) by (rule get_module_content_learner)
  have e: "content_join d (u_id u) moduleId = [] \<longleftrightarrow> module_content d moduleId = []"
    using content_join_total [OF assms(1), of "u_id u" moduleId] by (metis length_0_conv)
  have "learner_module_progress d (Token u) moduleId =
          Some (module_progress_of (content_join d (u_id u) moduleId))"
    by (simp add: learner_module_progress_def g)
  then have "learner_module_progress d (Token u) moduleId =
           Some \<lparr>total_content_items = length (module_content d moduleId),
                 completed_content_items =
                   length (filter (\<lambda>c. completed_by d (u_id u) (c_id c)) (module_content d moduleId)),
                 progressPercentage =
                   (if module_content d moduleId = [] then Fin 0
                    else Fin (of_nat (length (filter (\<lambda>c. completed_by d (u_id u) (c_id c))
                                                 (module_content d moduleId)))
                                / of_nat (length (module_content d moduleId)) * 100))\<rparr>"
    by (simp only: module_progress_of_eq content_join_total [OF assms(1)]
          content_join_completed [OF assms(1)] e)
  moreover have "progressPercentage (module_progress_of []) = Fin 0"
    by (simp add: module_progress_of_eq)
  ultimately show ?thesis by simp
qed

theorem module_progress_recomputed_from_store_witness:
  "unique_content_progress example_db_after_attempt \<and>
   select_module example_db_after_attempt 1 = [hd (modules example_db_after_attempt)] \<and>
   u_role example_learner = Learner \<and>
   (m_is_published (hd (modules example_db_after_attempt)) \<or>
      select_enrollment example_db_after_attempt (u_id example_learner) 1 \<noteq> []) \<and>
   learner_module_progress example_db_after_attempt (Token example_learner) 1 =
     Some \<lparr>total_content_items = 3, completed_content_items = 1, progressPercentage = Fin (100 / 3)\<rparr> \<and>
   learner_module_progress example_db_no_content (Token example_learner) 1 =
     Some \<lparr>total_content_items = 0, completed_content_items = 0, progressPercentage = Fin 0\<rparr>"
proof -
  have h1: "unique_content_progress example_db_after_attempt" by code_simp
  have h2: "select_module example_db_after_attempt 1 = [hd (modules example_db_after_attempt)]"
    by code_simp
  have h3: "u_role example_learner = Learner" by code_simp
  have h4: "m_is_published (hd (modules example_db_after_attempt)) \<or>
      select_enrollment example_db_after_attempt (u_id example_learner) 1 \<noteq> []"
    by code_simp
  have v1: "length (module_content example_db_after_attempt 1) = 3" by code_simp
  have v2: "length (filter (\<lambda>c. completed_by example_db_after_attempt (u_id example_learner) (c_id c))
              (module_content example_db_after_attempt 1)) = 1"
    by code_simp
  have ne: "module_content example_db_after_attempt 1 \<noteq> []" using v1 by auto
  from module_progress_recomputed_from_store [OF h1 h2 h3 h4]
  have r1: "learner_module_progress example_db_after_attempt (Token example_learner) 1 =
     Some \<lparr>total_content_items = 3, completed_content_items = 1, progressPercentage = Fin (100 / 3)\<rparr>"
    unfolding v1 v2 using ne by simp
  have k1: "unique_content_progress example_db_no_content" by code_simp
  have k2: "select_module example_db_no_content 1 = [hd (modules example_db_no_content)]"
    by code_simp
  have k4: "m_is_published (hd (modules example_db_no_content)) \<or>
      select_enrollment example_db_no_content (u_id example_learner) 1 \<noteq> []"
    by code_simp
  have w1: "module_content example_db_no_content 1 = []" by code_simp
  from module_progress_recomputed_from_store [OF k1 k2 h3 k4]
  have r2: "learner_module_progress example_db_no_content (Token example_learner) 1 =
     Some \<lparr>total_content_items = 0, completed_content_items = 0, progressPercentage = Fin 0\<rparr>"
    unfolding w1 by simp
  from h1 h2 h3 h4 r1 r2 show ?thesis by blast
qed

text \<open>
  Claim C9, amended. A learner's enrollment in a module succeeds, with 201 and exactly one
  new enrollment row, exactly when the module exists, is published, has a price that is
  not positive, and the learner has no enrollment in it; every other request leaves the
  state as it was. A published module with a positive price is answered with 400 and the
  message about payment; an existing enrollment in a published module without a positive
  price is answered with 400 and "Already enrolled", and so is a second request after a
  successful one. Whatever state the reads of a request saw, its \<open>INSERT\<close> keeps the pair
  of learner and module unique: requests that interleave never leave two rows for a pair.
\<close>

theorem enroll_succeeds_only_for_free_published_module:
  assumes "u_role u = Learner" and "mid \<noteq> 0"
    and "enroll d (Token u) (Some mid) now = (d', r)"
  shows "(status r = 201 \<longleftrightarrow>
            (\<exists>m rest. select_module d mid = m # rest \<and> m_is_published m \<and> m_price m \<le> 0) \<and>
            select_enrollment d (u_id u) mid = []) \<and>
         (status r = 201 \<longrightarrow>
            r = reply 201 ''Enrollment successful'' \<and> d' = with_enrollment d (u_id u) mid now) \<and>
         (status r \<noteq> 201 \<longrightarrow> d' = d) \<and>
         (\<forall>m rest. select_module d mid = m # rest \<and> m_is_published m \<and> 0 < m_price m \<longrightarrow>
            r = reply 400 ''This is a paid module. Payment integration is not yet implemented.'') \<and>
         (\<forall>m rest. select_module d mid = m # rest \<and> m_is_published m \<and> m_price m \<le> 0 \<and>
              select_enrollment d (u_id u) mid \<noteq> [] \<longrightarrow>
            r = reply 400 ''Already enrolled in this module'') \<and>
         (status r = 201 \<longrightarrow>
            enroll d' (Token u) (Some mid) later = (d', reply 400 ''Already enrolled in this module'')) \<and>
         (\<forall>d_read cred module_id t.
            unique_enrollment d \<longrightarrow>
            unique_enrollment (fst (enroll_interleaved d_read d cred module_id t)))"
proof -
  note out = enroll_outcome [OF assms(1,2), of d now]
  have iff: "status r = 201 \<longleftrightarrow> enroll_checks d (u_id u) mid = None"
    using out assms(3) enroll_checks_status [of d "u_id u" mid]
    by (cases "enroll_checks d (u_id u) mid") (auto simp add: reply_def)
  have ok: "r = reply 201 ''Enrollment successful'' \<and> d' = with_enrollment d (u_id u) mid now"
    if "status r = 201"
    using that iff out assms(3) by simp
  have rej: "d' = d" if "status r \<noteq> 201"
    using that iff out assms(3) by (cases "enroll_checks d (u_id u) mid") auto
  have paid: "r = reply 400 ''This is a paid module. Payment integration is not yet implemented.''"
    if "select_module d mid = m # rest \<and> m_is_published m \<and> 0 < m_price m" for m rest
    using that out assms(3) by (auto simp add: enroll_checks_def)
  have already: "r = reply 400 ''Already enrolled in this module''"
    if "select_module d mid = m # rest \<and> m_is_published m \<and> m_price m \<le> 0 \<and>
        select_enrollment d (u_id u) mid \<noteq> []" for m rest
    using that out assms(3) by (auto simp add: enroll_checks_def)
  have again: "enroll d' (Token u) (Some mid) later = (d', reply 400 ''Already enrolled in this module'')"
    if "status r = 201"
  proof -
    from that iff have n: "enroll_checks d (u_id u) mid = None" by simp
    from that ok have d': "d' = with_enrollment d (u_id u) mid now" by simp
    show ?thesis
      using enroll_outcome [OF assms(1,2), of d' later] enroll_checks_after_success [OF n, of now]
      by (simp add: d')
  qed
  have conc: "unique_enrollment (fst (enroll_interleaved d_read d cred module_id t))"
    if "unique_enrollment d" for d_read cred module_id t
    using that by (rule enroll_interleaved_unique)
  from iff ok rej paid already again conc show ?thesis
    unfolding enroll_checks_None by blast
qed


theorem enroll_succeeds_only_for_free_published_module_witness:
  "u_role example_outsider = Learner \<and> (1::nat) \<noteq> 0 \<and>
   enroll example_db (Token example_outsider) (Some 1) 5 =
     (with_enrollment example_db 9 1 5, reply 201 ''Enrollment successful'') \<and>
   enroll (with_enrollment example_db 9 1 5) (Token example_outsider) (Some 1) 6 =
     (with_enrollment example_db 9 1 5, reply 400 ''Already enrolled in this module'') \<and>
   unique_enrollment example_db \<and>
   unique_enrollment (with_enrollment example_db 9 1 5) \<and>
   enroll_interleaved example_db (with_enrollment example_db 9 1 5) (Token example_outsider) (Some 1) 6 =
     (with_enrollment example_db 9 1 5, reply 500 ''Server error during enrollment'') \<and>
   unique_enrollment
     (fst (enroll_interleaved example_db (with_enrollment example_db 9 1 5) (Token example_outsider) (Some 1) 6)) \<and>
   select_module example_db_paid 1 = [hd (modules example_db_paid)] \<and>
   m_is_published (hd (modules example_db_paid)) \<and> 0 < m_price (hd (modules example_db_paid)) \<and>
   snd (enroll example_db_paid (Token example_outsider) (Some 1) 5) =
     reply 400 ''This is a paid module. Payment integration is not yet implemented.'' \<and>
   select_module example_db 1 = [hd (modules example_db)] \<and>
   m_is_published (hd (modules example_db)) \<and> m_price (hd (modules example_db)) \<le> 0 \<and>
   select_enrollment example_db (u_id example_learner) 1 \<noteq> [] \<and>
   snd (enroll example_db (Token example_learner) (Some 1) 5) =
     reply 400 ''Already enrolled in this module''"
proof -
  have h1: "u_role example_outsider = Learner" by code_simp
  have h1': "u_role example_learner = Learner" by code_simp
  have h2: "(1::nat) \<noteq> 0" by simp
  have uid: "u_id example_outsider = 9" by code_simp
  have e1: "enroll example_db (Token example_outsider) (Some 1) 5 =
     (with_enrollment example_db 9 1 5, reply 201 ''Enrollment successful'')"
    by code_simp
  have st: "status (reply 201 ''Enrollment successful'') = 201" by (simp add: reply_def)
  note t1 = enroll_succeeds_only_for_free_published_module [OF h1 h2 e1, of 6]
  from t1 st have e2: "enroll (with_enrollment example_db 9 1 5) (Token example_outsider) (Some 1) 6 =
     (with_enrollment example_db 9 1 5, reply 400 ''Already enrolled in this module'')"
    by blast
  have u0: "unique_enrollment example_db" by code_simp
  from t1 u0 have "unique_enrollment (fst (enroll_interleaved example_db example_db (Token example_outsider) (Some 1) 5))"
    by blast
  then have u1: "unique_enrollment (with_enrollment example_db 9 1 5)"
    using e1 by (simp add: enroll_def)
  note t2 = enroll_succeeds_only_for_free_published_module [OF h1 h2 e2, of 7]
  from t2 u1 have u2: "unique_enrollment
     (fst (enroll_interleaved example_db (with_enrollment example_db 9 1 5) (Token example_outsider) (Some 1) 6))"
    by blast
  have c: "enroll_interleaved example_db (with_enrollment example_db 9 1 5) (Token example_outsider) (Some 1) 6 =
     (with_enrollment example_db 9 1 5, reply 500 ''Server error during enrollment'')"
    by code_simp
  have p1: "select_module example_db_paid 1 = [hd (modules example_db_paid)]" by code_simp
  have p2: "m_is_published (hd (modules example_db_paid))" by code_simp
  have p3: "0 < m_price (hd (modules example_db_paid))" by code_simp
  have e3: "enroll example_db_paid (Token example_outsider) (Some 1) 5 =
      (fst (enroll example_db_paid (Token example_outsider) (Some 1) 5),
       snd (enroll example_db_paid (Token example_outsider) (Some 1) 5))"
    by simp
  note t3 = enroll_succeeds_only_for_free_published_module [OF h1 h2 e3, of 6]
  from t3 p1 p2 p3 have r3: "snd (enroll example_db_paid (Token example_outsider) (Some 1) 5) =
     reply 400 ''This is a paid module. Payment integration is not yet implemented.''"
    by blast
  have a1: "select_module example_db 1 = [hd (modules example_db)]" by code_simp
  have a2: "m_is_published (hd (modules example_db))" by code_simp
  have a3: "m_price (hd (modules example_db)) \<le> 0" by code_simp
  have a4: "select_enrollment example_db (u_id example_learner) 1 \<noteq> []" by code_simp
  have e4: "enroll example_db (Token example_learner) (Some 1) 5 =
      (fst (enroll example_db (Token example_learner) (Some 1) 5),
       snd (enroll example_db (Token example_learner) (Some 1) 5))"
    by simp
  note t4 = enroll_succeeds_only_for_free_published_module [OF h1' h2 e4, of 6]
  from t4 a1 a2 a3 a4 have r4: "snd (enroll example_db (Token example_learner) (Some 1) 5) =
     reply 400 ''Already enrolled in this module''"
    by blast
  from h1 h2 e1 e2 u0 u1 c u2 p1 p2 p3 r3 a1 a2 a3 a4 r4 show ?thesis by blast
qed

text \<open>
  The claim as stated fails for a price below zero, which the column and the module
  handlers allow: the handler tests \<open>price > 0\<close>, and a learner is enrolled in a published
  module priced -1.00.
\<close>

theorem enroll_negative_price_counterexample:
  "map m_price (select_module example_db_negative_price 1) = [- 100] \<and>
   enroll example_db_negative_price (Token example_outsider) (Some 1) 5 =
     (with_enrollment example_db_negative_price 9 1 5, reply 201 ''Enrollment successful'') \<and>
   length (enrollments (with_enrollment example_db_negative_price 9 1 5)) =
     Suc (length (enrollments example_db_negative_price))"
  by code_simp

text \<open>
  Claim C10. From a state in which every progress row is completed, every sequence of
  requests (quiz submissions, content completions, enrollments, content creations) leads
  to such a state. A request keeps every row the table has, changing at most its
  \<open>completed_at\<close>; a row it adds is completed. A quiz submission answered with 200 leaves
  a completed progress row for the learner and the quiz whatever the score: also an
  attempt with no correct answer.
\<close>

theorem progress_rows_are_created_and_stay_completed:
  assumes "all_completed d"
  shows "all_completed (run d reqs) \<and>
         length (user_content_progress d) \<le> length (user_content_progress (handle d req)) \<and>
         (\<forall>i<length (user_content_progress d).
            \<exists>t. user_content_progress (handle d req) ! i =
                 (user_content_progress d ! i)\<lparr>p_completed_at := t\<rparr>) \<and>
         (\<forall>i. length (user_content_progress d) \<le> i \<and>
              i < length (user_content_progress (handle d req)) \<longrightarrow>
              p_is_completed (user_content_progress (handle d req) ! i)) \<and>
         (\<forall>u cid answers now fault d' r.
            submit_quiz d (Token u) cid answers now fault = (d', r) \<and> status r = 200 \<longrightarrow>
            select_progress d' (u_id u) cid \<noteq> [] \<and>
            list_all p_is_completed (select_progress d' (u_id u) cid))"
proof -
  have r: "all_completed (run d reqs)" using assms by (rule run_all_completed)
  have len: "length (user_content_progress d) \<le> length (user_content_progress (handle d req))"
    using handle_progress [of d req] upserted_length_le by auto
  have old: "\<exists>t. user_content_progress (handle d req) ! i =
                 (user_content_progress d ! i)\<lparr>p_completed_at := t\<rparr>"
    if i: "i < length (user_content_progress d)" for i
    using handle_progress [of d req]
  proof
    assume "user_content_progress (handle d req) = user_content_progress d"
    then have "user_content_progress (handle d req) ! i =
        (user_content_progress d ! i)\<lparr>p_completed_at := p_completed_at (user_content_progress d ! i)\<rparr>"
      by simp
    then show ?thesis by blast
  next
    assume "\<exists>uid cid now. user_content_progress (handle d req) =
              upserted (user_content_progress d) uid cid now"
    then show ?thesis using upserted_old_rows [OF i] by auto
  qed
  have new: "p_is_completed (user_content_progress (handle d req) ! i)"
    if i: "length (user_content_progress d) \<le> i \<and> i < length (user_content_progress (handle d req))"
    for i
    using handle_progress [of d req]
  proof
    assume "user_content_progress (handle d req) = user_content_progress d"
    with i have False by auto
    then show ?thesis ..
  next
    assume "\<exists>uid cid now. user_content_progress (handle d req) =
              upserted (user_content_progress d) uid cid now"
    with i show ?thesis using upserted_new_rows by auto
  qed
  have sub: "select_progress d' (u_id u) cid \<noteq> [] \<and>
            list_all p_is_completed (select_progress d' (u_id u) cid)"
    if "submit_quiz d (Token u) cid answers now fault = (d', r) \<and> status r = 200"
    for u :: user and cid answers now fault d' r
    using assms that submit_quiz_marks_completed by blast
  from r len old new sub show ?thesis by blast
qed

theorem progress_rows_are_created_and_stay_completed_witness:
  "all_completed example_db \<and>
   snd (submit_quiz example_db (Token example_learner) 1 (JArr [JNum 0, JNum 0]) 5 None) =
     \<lparr>status = 200,
      body = QuizSubmitted \<lparr>g_score = Fin 0, g_correctAnswers = 0, g_totalQuestions = 2\<rparr>\<rparr> \<and>
   select_progress (fst (submit_quiz example_db (Token example_learner) 1 (JArr [JNum 0, JNum 0]) 5 None))
     (u_id example_learner) 1 \<noteq> [] \<and>
   list_all p_is_completed
     (select_progress (fst (submit_quiz example_db (Token example_learner) 1 (JArr [JNum 0, JNum 0]) 5 None))
        (u_id example_learner) 1) \<and>
   length (user_content_progress example_db) \<le> 0 \<and>
   0 < length (user_content_progress
          (handle example_db (SubmitQuiz (Token example_learner) 1 (JArr [JNum 0, JNum 0]) 5 None))) \<and>
   p_is_completed (user_content_progress
          (handle example_db (SubmitQuiz (Token example_learner) 1 (JArr [JNum 0, JNum 0]) 5 None)) ! 0) \<and>
   all_completed (handle example_db (SubmitQuiz (Token example_learner) 1 (JArr [JNum 0, JNum 0]) 5 None)) \<and>
   0 < length (user_content_progress
          (handle example_db (SubmitQuiz (Token example_learner) 1 (JArr [JNum 0, JNum 0]) 5 None))) \<and>
   (\<exists>t. user_content_progress
          (handle (handle example_db (SubmitQuiz (Token example_learner) 1 (JArr [JNum 0, JNum 0]) 5 None))
             (CompleteContent (Token example_learner) 1 6)) ! 0 =
        (user_content_progress
          (handle example_db (SubmitQuiz (Token example_learner) 1 (JArr [JNum 0, JNum 0]) 5 None)) ! 0)
          \<lparr>p_completed_at := t\<rparr>) \<and>
   all_completed (run example_db
     [SubmitQuiz (Token example_learner) 1 (JArr [JNum 0, JNum 0]) 5 None,
      CompleteContent (Token example_learner) 1 6,
      SubmitQuiz (Token example_learner) 1 (JArr [JNum 1, JNum 2]) 7 None])"
proof -
  let ?req = "SubmitQuiz (Token example_learner) 1 (JArr [JNum 0, JNum 0]) 5 None"
  let ?d1 = "handle example_db ?req"
  have h: "all_completed example_db" by code_simp
  have s: "snd (submit_quiz example_db (Token example_learner) 1 (JArr [JNum 0, JNum 0]) 5 None) =
     \<lparr>status = 200,
      body = QuizSubmitted \<lparr>g_score = Fin 0, g_correctAnswers = 0, g_totalQuestions = 2\<rparr>\<rparr>"
    by code_simp
  have e1: "submit_quiz example_db (Token example_learner) 1 (JArr [JNum 0, JNum 0]) 5 None =
      (fst (submit_quiz example_db (Token example_learner) 1 (JArr [JNum 0, JNum 0]) 5 None),
       snd (submit_quiz example_db (Token example_learner) 1 (JArr [JNum 0, JNum 0]) 5 None))"
    by simp
  have e2: "status (snd (submit_quiz example_db (Token example_learner) 1 (JArr [JNum 0, JNum 0]) 5 None)) = 200"
    by code_simp
  note e = conjI [OF e1 e2]
  have l0: "length (user_content_progress example_db) \<le> 0" by code_simp
  have l1: "0 < length (user_content_progress ?d1)" by code_simp
  note t = progress_rows_are_created_and_stay_completed [OF h]
  from t [of "[]" ?req] e
  have c: "select_progress (fst (submit_quiz example_db (Token example_learner) 1 (JArr [JNum 0, JNum 0]) 5 None))
       (u_id example_learner) 1 \<noteq> [] \<and>
     list_all p_is_completed
       (select_progress (fst (submit_quiz example_db (Token example_learner) 1 (JArr [JNum 0, JNum 0]) 5 None))
          (u_id example_learner) 1)"
    by blast
  from t [of "[]" ?req] l0 l1 have n: "p_is_completed (user_content_progress ?d1 ! 0)" by blast
  from t [of "[?req]" ?req] have h1: "all_completed ?d1" by (simp add: run_def)
  from progress_rows_are_created_and_stay_completed [OF h1, of "[]" "CompleteContent (Token example_learner) 1 6"] l1
  have o: "\<exists>t. user_content_progress (handle ?d1 (CompleteContent (Token example_learner) 1 6)) ! 0 =
        (user_content_progress ?d1 ! 0)\<lparr>p_completed_at := t\<rparr>"
    by blast
  from t [of "[?req, CompleteContent (Token example_learner) 1 6,
      SubmitQuiz (Token example_learner) 1 (JArr [JNum 1, JNum 2]) 7 None]" ?req]
  have rr: "all_completed (run example_db
     [?req, CompleteContent (Token example_learner) 1 6,
      SubmitQuiz (Token example_learner) 1 (JArr [JNum 1, JNum 2]) 7 None])"
    by blast
  from h s c l0 l1 n h1 o rr show ?thesis by blast
qed

end
